theory Spec2Isabelle
  imports Complex_Main
begin

section \<open>Python values shared by the modules\<close>

text \<open>
  Python strings are modelled as \<^typ>\<open>string\<close>, \<open>Optional[str]\<close> as \<^typ>\<open>string option\<close>.
  A string is truthy when it is not empty, \<open>None\<close> is falsy.
\<close>

definition truthy :: "string option \<Rightarrow> bool" where
  "truthy v = (case v of None \<Rightarrow> False | Some s \<Rightarrow> s \<noteq> [])"

text \<open>The values stored in the result dictionary: strings and booleans.\<close>

datatype pyval = PStr string | PBool bool

section \<open>result\_reporter.py: \<open>ResultReporter.format_result\<close>\<close>

text \<open>
  \<open>format_result\<close> builds the five fixed entries and then adds each optional entry
  under an \<open>if value:\<close> guard. The timestamp comes from \<open>datetime.now()\<close>; it is the
  first argument of the model.
\<close>

definition set_if_truthy ::
  "string \<Rightarrow> string option \<Rightarrow> (string \<rightharpoonup> pyval) \<Rightarrow> (string \<rightharpoonup> pyval)" where
  "set_if_truthy key v result =
     (case v of
        None \<Rightarrow> result
      | Some s \<Rightarrow> if s \<noteq> [] then result(key \<mapsto> PStr s) else result)"

definition format_result ::
  "string \<Rightarrow> string \<Rightarrow> string \<Rightarrow> bool \<Rightarrow> string \<Rightarrow>
   string option \<Rightarrow> string option \<Rightarrow> string option \<Rightarrow> (string \<rightharpoonup> pyval)" where
  "format_result timestamp coupon_code website_url is_valid status_message
     error_message discount_amount screenshot_path =
     (let result = [''coupon_code'' \<mapsto> PStr coupon_code,
                    ''website_url'' \<mapsto> PStr website_url,
                    ''timestamp'' \<mapsto> PStr timestamp,
                    ''is_valid'' \<mapsto> PBool is_valid,
                    ''status'' \<mapsto> PStr status_message];
          result = set_if_truthy ''error_message'' error_message result;
          result = set_if_truthy ''discount_amount'' discount_amount result;
          result = set_if_truthy ''screenshot_path'' screenshot_path result
      in result)"

section \<open>coupon\_applicator.py: the result classifier\<close>

text \<open>
  The classifier talks to two collaborators that are not code of this repository: the
  browser (through \<open>BrowserEngine.is_visible\<close>, \<open>get_text\<close> and \<open>get_html_content\<close>,
  each of which catches every exception of the driver and answers \<open>False\<close> or \<open>None\<close>)
  and Python's \<open>re\<close> module. Both are parameters of the model. The page may change
  between two calls, so every browser call takes the state \<open>'w\<close> of the world and
  returns the next one.
\<close>

record 'w browser_engine =
  is_visible :: "string \<Rightarrow> 'w \<Rightarrow> bool \<times> 'w"
  get_text :: "string \<Rightarrow> 'w \<Rightarrow> string option \<times> 'w"
  get_html_content :: "'w \<Rightarrow> string option \<times> 'w"

text \<open>
  The regular expressions of \<open>_extract_discount_amount\<close>, in the order of the source.
  \<open>NumericToken\<close> is the pattern searched in an element's text (an optional sign or
  currency symbol, optional white space, then digits, commas and dots); the other six are
  the patterns of \<open>discount_patterns\<close>, searched in the whole page with \<open>re.IGNORECASE\<close>.
  \<open>re_search p text\<close> is \<open>group(0)\<close> of \<open>re.search\<close>, or \<open>None\<close> without a match.
\<close>

datatype discount_pattern =
  NumericToken
  | DiscountThenAmount | CouponThenAmount | PromoThenAmount
  | AmountThenDiscount | AmountThenCoupon | AmountThenPromo

type_synonym re_engine = "discount_pattern \<Rightarrow> string \<Rightarrow> string option"

definition discount_patterns :: "discount_pattern list" where
  "discount_patterns =
     [DiscountThenAmount, CouponThenAmount, PromoThenAmount,
      AmountThenDiscount, AmountThenCoupon, AmountThenPromo]"

text \<open>\<open>str.strip()\<close>: the white space of Python's \<open>str.isspace\<close> below code point 256.\<close>

definition py_isspace :: "char \<Rightarrow> bool" where
  "py_isspace c = ((of_char c :: nat) \<in> {9, 10, 11, 12, 13, 28, 29, 30, 31, 32, 133, 160})"

definition strip :: "string \<Rightarrow> string" where
  "strip s = rev (dropWhile py_isspace (rev (dropWhile py_isspace s)))"

text \<open>
  The platform descriptor is a flat dictionary: the key \<open>platform\<close>, the match counts under
  \<open>confidence_scores\<close>, one key per role holding that role's selector ladder, once the AI
  analysis has run \<open>ai_confidence_scores\<close>, and \<open>error\<close> when identification failed. A
  confidence is a Python float; the model keeps its exact value as a rational.
\<close>

record platform_info =
  platform :: "string option"
  confidence_scores :: "(string \<times> nat) list option"
  selectors :: "string \<rightharpoonup> string list"
  ai_confidence_scores :: "(string \<rightharpoonup> rat) option"
  error :: "string option"

text \<open>The float literal \<open>0.8\<close> is the double \<open>3602879701896397 / 2^52\<close>.\<close>

definition ai_confidence_threshold :: rat where
  "ai_confidence_threshold = 3602879701896397 / 4503599627370496"

record validation_result =
  is_valid :: bool
  discount_amount :: "string option"
  success_message :: "string option"
  error_message :: "string option"

text \<open>
  The loop shared by the four message ladders: the first selector that is visible and
  whose text is truthy ends the loop with that text.
\<close>

fun find_message :: "'w browser_engine \<Rightarrow> string list \<Rightarrow> 'w \<Rightarrow> string option \<times> 'w" where
  "find_message be [] w = (None, w)"
| "find_message be (selector # rest) w =
     (case is_visible be selector w of
        (False, w1) \<Rightarrow> find_message be rest w1
      | (True, w1) \<Rightarrow>
          (case get_text be selector w1 of
             (None, w2) \<Rightarrow> find_message be rest w2
           | (Some message, w2) \<Rightarrow>
               if message \<noteq> [] then (Some message, w2) else find_message be rest w2))"

definition check_success ::
  "'w browser_engine \<Rightarrow> string list \<Rightarrow> validation_result \<times> 'w \<Rightarrow> validation_result \<times> 'w" where
  "check_success be ladder rw =
     (case find_message be ladder (snd rw) of
        (None, w') \<Rightarrow> (fst rw, w')
      | (Some message, w') \<Rightarrow>
          ((fst rw)\<lparr>success_message := Some message, is_valid := True\<rparr>, w'))"

definition check_error ::
  "'w browser_engine \<Rightarrow> string list \<Rightarrow> validation_result \<times> 'w \<Rightarrow> validation_result \<times> 'w" where
  "check_error be ladder rw =
     (case find_message be ladder (snd rw) of
        (None, w') \<Rightarrow> (fst rw, w')
      | (Some message, w') \<Rightarrow>
          ((fst rw)\<lparr>error_message := Some message, is_valid := False\<rparr>, w'))"

definition success_selectors :: "string list" where
  \<open>success_selectors =
     [''.success-message'', ''.alert-success'', ''.message-success'', ''.coupon-success'',
      ''.discount-success'', ''.promo-success'',
      ''div:has-text("successfully")'', ''div:has-text("Successfully")'',
      ''div:has-text("applied")'', ''div:has-text("Applied")'',
      ''p:has-text("successfully")'', ''p:has-text("Successfully")'',
      ''p:has-text("applied")'', ''p:has-text("Applied")'',
      ''span:has-text("successfully")'', ''span:has-text("Successfully")'',
      ''span:has-text("applied")'', ''span:has-text("Applied")'']\<close>

definition error_selectors :: "string list" where
  \<open>error_selectors =
     [''.error-message'', ''.alert-danger'', ''.message-error'', ''.coupon-error'',
      ''.discount-error'', ''.promo-error'',
      ''div:has-text("invalid")'', ''div:has-text("Invalid")'',
      ''div:has-text("expired")'', ''div:has-text("Expired")'',
      ''div:has-text("not valid")'', ''div:has-text("Not valid")'',
      ''p:has-text("invalid")'', ''p:has-text("Invalid")'',
      ''p:has-text("expired")'', ''p:has-text("Expired")'',
      ''p:has-text("not valid")'', ''p:has-text("Not valid")'',
      ''span:has-text("invalid")'', ''span:has-text("Invalid")'',
      ''span:has-text("expired")'', ''span:has-text("Expired")'',
      ''span:has-text("not valid")'', ''span:has-text("Not valid")'']\<close>

definition discount_selectors :: "string list" where
  \<open>discount_selectors =
     [''.discount-amount'', ''.discount'', ''.coupon-discount'', ''.order-discount'',
      ''.cart-discount'', ''.price-discount'', ''.order-summary__discount'',
      ''.cart-summary__discount'', ''.discount-total'',
      ''span:has-text("discount")'', ''div:has-text("discount")'',
      ''tr:has-text("discount")'', ''td:has-text("discount")'',
      ''span:has-text("Discount")'', ''div:has-text("Discount")'',
      ''tr:has-text("Discount")'', ''td:has-text("Discount")'']\<close>

text \<open>
  \<open>platform_info and 'platform' in platform_info and platform_info['platform'] != 'unknown'\<close>
\<close>

definition known_platform :: "platform_info \<Rightarrow> bool" where
  "known_platform info = (case platform info of None \<Rightarrow> False | Some p \<Rightarrow> p \<noteq> ''unknown'')"

text \<open>\<open>role in platform_info and platform_info[role]\<close>: the ladder, when present and not empty.\<close>

definition ladder :: "platform_info \<Rightarrow> string \<Rightarrow> string list" where
  "ladder info role = (case selectors info role of None \<Rightarrow> [] | Some l \<Rightarrow> l)"

text \<open>
  \<open>role in ai_confidence_scores and ai_confidence_scores[role] > ai_confidence_threshold\<close>
\<close>

definition ai_confident :: "platform_info \<Rightarrow> string \<Rightarrow> bool" where
  "ai_confident info role =
     (case ai_confidence_scores info of
        None \<Rightarrow> False
      | Some scores \<Rightarrow>
          (case scores role of None \<Rightarrow> False | Some c \<Rightarrow> c > ai_confidence_threshold))"

text \<open>The element loop of \<open>_extract_discount_amount\<close>.\<close>

fun find_discount ::
  "re_engine \<Rightarrow> 'w browser_engine \<Rightarrow> string list \<Rightarrow> 'w \<Rightarrow> string option \<times> 'w" where
  "find_discount re_search be [] w = (None, w)"
| "find_discount re_search be (selector # rest) w =
     (case is_visible be selector w of
        (False, w1) \<Rightarrow> find_discount re_search be rest w1
      | (True, w1) \<Rightarrow>
          (case get_text be selector w1 of
             (None, w2) \<Rightarrow> find_discount re_search be rest w2
           | (Some discount_text, w2) \<Rightarrow>
               if discount_text \<noteq> [] then
                 (case re_search NumericToken discount_text of
                    Some m \<Rightarrow> (Some (strip m), w2)
                  | None \<Rightarrow> find_discount re_search be rest w2)
               else find_discount re_search be rest w2))"

text \<open>The pattern loop over the whole page.\<close>

fun search_html :: "re_engine \<Rightarrow> discount_pattern list \<Rightarrow> string \<Rightarrow> string option" where
  "search_html re_search [] html_content = None"
| "search_html re_search (pattern # rest) html_content =
     (case re_search pattern html_content of
        Some m \<Rightarrow> Some (strip m)
      | None \<Rightarrow> search_html re_search rest html_content)"

definition extract_discount_amount ::
  "re_engine \<Rightarrow> 'w browser_engine \<Rightarrow> platform_info \<Rightarrow> 'w \<Rightarrow> string option \<times> 'w" where
  "extract_discount_amount re_search be info w =
     (let ai_discount_selectors =
            (if ai_confident info ''discount_amount'' then ladder info ''discount_amount'' else [])
      in case find_discount re_search be (ai_discount_selectors @ discount_selectors) w of
           (Some d, w1) \<Rightarrow> (Some d, w1)
         | (None, w1) \<Rightarrow>
             (case get_html_content be w1 of
                (None, w2) \<Rightarrow> (None, w2)
              | (Some html_content, w2) \<Rightarrow>
                  if html_content \<noteq> [] then (search_html re_search discount_patterns html_content, w2)
                  else (None, w2)))"

text \<open>
  The first half of \<open>_check_validation_result\<close>: the platform ladders, then, when no
  message was found, the common ladders. Logging is left out; the two
  \<open>has_ai_*_detection\<close> flags are only read by log messages.
\<close>

definition check_messages ::
  "'w browser_engine \<Rightarrow> platform_info \<Rightarrow> 'w \<Rightarrow> validation_result \<times> 'w" where
  "check_messages be info w =
     (let rw = (\<lparr>is_valid = False, discount_amount = None,
                  success_message = None, error_message = None\<rparr>, w);
          rw = (if known_platform info
                then check_error be (ladder info ''coupon_error'')
                       (check_success be (ladder info ''coupon_success'') rw)
                else rw)
      in if success_message (fst rw) = None \<and> error_message (fst rw) = None
         then check_error be error_selectors (check_success be success_selectors rw)
         else rw)"

text \<open>The second half: the discount amount and the rule that combines the evidence.\<close>

definition compose_verdict :: "validation_result \<Rightarrow> string option \<Rightarrow> validation_result" where
  "compose_verdict result discount =
     (let result =
            (if truthy discount then
               (let result = result\<lparr>discount_amount := discount\<rparr>
                in if success_message result = None \<and> error_message result = None
                   then result\<lparr>is_valid := True\<rparr> else result)
             else result)
      in if \<not> is_valid result \<and> error_message result = None \<and> truthy discount
         then result\<lparr>is_valid := True\<rparr> else result)"

definition check_validation_result ::
  "re_engine \<Rightarrow> 'w browser_engine \<Rightarrow> platform_info \<Rightarrow> 'w \<Rightarrow> validation_result \<times> 'w" where
  "check_validation_result re_search be info w =
     (case check_messages be info w of
        (result, w1) \<Rightarrow>
          (case extract_discount_amount re_search be info w1 of
             (discount, w2) \<Rightarrow> (compose_verdict result discount, w2)))"

subsection \<open>Concrete pages\<close>

text \<open>
  A static page for running the classifier: an element is visible exactly when the page
  gives it a text, and the page has no HTML to search. \<open>amount_search\<close> holds the answers
  of \<open>re.search\<close> on the two texts the pages below put to it, \<open>$0.00\<close> and \<open>$5.00\<close>:
  there the numeric-token pattern matches from the currency sign to the last digit, which
  is the whole text. It answers for no other text. \<open>unknown_platform\<close> is the descriptor
  of an unrecognised site.
\<close>

definition unknown_platform :: platform_info where
  "unknown_platform =
     \<lparr>platform = Some ''unknown'', confidence_scores = Some [], selectors = Map.empty,
      ai_confidence_scores = None, error = None\<rparr>"

definition page_browser :: "(string \<rightharpoonup> string) \<Rightarrow> unit browser_engine" where
  "page_browser elements =
     \<lparr>is_visible = (\<lambda>selector w. (elements selector \<noteq> None, w)),
      get_text = (\<lambda>selector w. (elements selector, w)),
      get_html_content = (\<lambda>w. (None, w))\<rparr>"

definition amount_search :: re_engine where
  "amount_search p text =
     (if p = NumericToken \<and> (text = ''$0.00'' \<or> text = ''$5.00'') then Some text else None)"

section \<open>website\_pattern\_recognizer.py: platform identification\<close>

text \<open>
  The signature patterns are regular expressions searched with \<open>re.IGNORECASE\<close>. Every
  pattern of the table is a sequence of literal characters and dots (the escaped slash
  \<open>\/\<close> of the source is the literal slash and is written so below), so a regular
  expression is a list of atoms. Characters are 8-bit: on such text ignoring case is
  ASCII case folding, and the dot matches every character but the newline.
\<close>

datatype atom = Lit char | AnyChar

type_synonym regex = "atom list"

definition ascii_lower :: "char \<Rightarrow> char" where
  "ascii_lower c =
     (case map_of (zip ''ABCDEFGHIJKLMNOPQRSTUVWXYZ'' ''abcdefghijklmnopqrstuvwxyz'') c of
        Some l \<Rightarrow> l
      | None \<Rightarrow> c)"

definition pattern :: "string \<Rightarrow> regex" where
  "pattern s = map (\<lambda>c. if c = CHR ''.'' then AnyChar else Lit c) s"

fun atom_matches :: "atom \<Rightarrow> char \<Rightarrow> bool" where
  "atom_matches (Lit c) d = (ascii_lower c = ascii_lower d)"
| "atom_matches AnyChar d = (d \<noteq> CHR 0x0A)"

text \<open>A match that starts at the first character of the text.\<close>

fun matches_here :: "regex \<Rightarrow> string \<Rightarrow> bool" where
  "matches_here [] text = True"
| "matches_here (a # r) [] = False"
| "matches_here (a # r) (d # text) = (atom_matches a d \<and> matches_here r text)"

text \<open>\<open>re.search(pattern, text, re.IGNORECASE)\<close> as a truth value: a match at some position.\<close>

fun re_search_ignorecase :: "regex \<Rightarrow> string \<Rightarrow> bool" where
  "re_search_ignorecase r [] = matches_here r []"
| "re_search_ignorecase r (d # text) =
     (matches_here r (d # text) \<or> re_search_ignorecase r text)"

definition platform_patterns :: "(string \<times> regex list) list" where
  "platform_patterns =
     [(''magento'',
        [pattern ''Magento'', pattern ''mage/cookies'', pattern ''magento-version'',
         pattern ''Mage.Cookies'', pattern ''Magento_Ui'',
         pattern ''catalog/product/view'', pattern ''checkout/cart'',
         pattern ''requirejs-config'']),
      (''woocommerce'',
        [pattern ''woocommerce'', pattern ''WooCommerce'', pattern ''wc-'',
         pattern ''wc_'', pattern ''is-woocommerce-'', pattern ''woocommerce-'',
         pattern ''wp-content'']),
      (''shopify'',
        [pattern ''shopify'', pattern ''Shopify'', pattern ''shopify-'',
         pattern ''/cdn/shop'', pattern ''shopify.com'', pattern ''myshopify.com'']),
      (''opencart'',
        [pattern ''opencart'', pattern ''OpenCart'', pattern ''route=checkout'',
         pattern ''route=product'', pattern ''catalog/view'']),
      (''prestashop'',
        [pattern ''prestashop'', pattern ''PrestaShop'', pattern ''presta-'',
         pattern ''id_product='', pattern ''controller=product'',
         pattern ''controller=cart'']),
      (''bigcommerce'',
        [pattern ''bigcommerce'', pattern ''BigCommerce'', pattern ''bc-'',
         pattern ''bigcommerce.com'', pattern ''data-cart'']),
      (''skullcandy'',
        [pattern ''skullcandy'', pattern ''Skullcandy'', pattern ''skullcandy.in'',
         pattern ''skullcandy.com'', pattern ''skull-'', pattern ''collection/tws'']),
      (''custom_ecommerce'',
        [pattern ''add-to-cart'', pattern ''add_to_cart'', pattern ''cart'',
         pattern ''checkout'', pattern ''product'', pattern ''collection'',
         pattern ''category''])]"

definition platform_selectors :: "(string \<times> (string \<times> string list) list) list" where
  \<open>platform_selectors =
     [(''magento'',
        [(''product_grid'',
          [''.products-grid .product-item'', ''.product-items .product-item'',
           ''.products.list .product-item'']),
         (''add_to_cart'',
          [''#product-addtocart-button'', ''.action.tocart'', ''.action.primary.tocart'']),
         (''cart_link'',
          [''.action.showcart'', ''.minicart-wrapper .action.showcart'',
           ''.action.viewcart'']),
         (''checkout_button'',
          [''.action.primary.checkout'', ''#top-cart-btn-checkout'',
           ''.checkout-methods-items .action.primary.checkout'']),
         (''coupon_field'',
          [''#coupon_code'', ''#discount-code'', ''#discount-coupon-form #coupon_code''])]),
      (''skullcandy'',
        [(''product_grid'',
          [''.collection-item'', ''.product-item'', ''.grid-item'', ''.product-card'']),
         (''add_to_cart'',
          [''.add-to-cart'', ''.add_to_cart'', ''button:has-text("Add to Cart")'',
           ''button:has-text("Buy Now")'', ''.product-form__cart-submit'']),
         (''cart_link'',
          [''.cart-link'', ''.cart-icon'', ''a[href*="/cart"]'', ''.cart-count-bubble'']),
         (''checkout_button'',
          [''.checkout-button'', ''button:has-text("Checkout")'',
           ''button:has-text("Proceed to Checkout")'', ''a:has-text("Checkout")'']),
         (''coupon_field'',
          [''#coupon_code'', ''#discount-code'', ''input[name="discount"]'',
           ''input[placeholder*="coupon"]'', ''input[placeholder*="Coupon"]'',
           ''input[placeholder*="discount"]'', ''input[placeholder*="Discount"]'',
           ''input[placeholder*="promo"]'', ''input[placeholder*="Promo"]'']),
         (''coupon_button'',
          [''button:has-text("Apply")'', ''button:has-text("Apply Coupon")'',
           ''button:has-text("Apply Discount")'', ''input[value="Apply"]'',
           ''.coupon-btn'', ''.apply-coupon'']),
         (''coupon_success'',
          [''.coupon-success'', ''.discount-success'', ''.success-message'',
           ''.alert-success'', ''.discount-applied'']),
         (''coupon_error'',
          [''.coupon-error'', ''.discount-error'', ''.error-message'', ''.alert-error'',
           ''.alert-danger'']),
         (''discount_amount'',
          [''.discount-amount'', ''.cart-discount'', ''.order-discount'',
           ''.discount-total'', ''.discount-value''])]),
      (''custom_ecommerce'',
        [(''product_grid'',
          [''.product'', ''.product-item'', ''.product-card'', ''.collection-item'',
           ''.grid-item'', ''.item-card'']),
         (''add_to_cart'',
          [''.add-to-cart'', ''.add_to_cart'', ''#add-to-cart'', ''#add_to_cart'',
           ''button:has-text("Add to Cart")'', ''button:has-text("Buy Now")'']),
         (''cart_link'',
          [''.cart'', ''.cart-link'', ''.cart-icon'', ''a[href*="/cart"]'', ''.cart-count'']),
         (''checkout_button'',
          [''.checkout'', ''.checkout-button'', ''button:has-text("Checkout")'',
           ''a:has-text("Checkout")'']),
         (''coupon_field'',
          [''#coupon_code'', ''#discount-code'', ''input[name*="coupon"]'',
           ''input[name*="discount"]'', ''input[placeholder*="coupon"]'',
           ''input[placeholder*="discount"]'', ''input[placeholder*="promo"]'']),
         (''coupon_button'',
          [''.action.apply.primary'', ''button.action.apply'',
           ''#discount-coupon-form .action.primary'']),
         (''coupon_success'',
          [''.message-success'', ''.messages .success'', ''.page.messages .message-success'']),
         (''coupon_error'',
          [''.message-error'', ''.messages .error'', ''.page.messages .message-error'']),
         (''discount_amount'',
          [''.discount .amount'', ''.discount-amount'', ''.totals.discount .amount''])]),
      (''woocommerce'',
        [(''product_grid'',
          [''.products .product'', ''ul.products li.product'',
           ''.wc-block-grid__products .wc-block-grid__product'']),
         (''add_to_cart'',
          [''.single_add_to_cart_button'', ''.add_to_cart_button'',
           ''button.alt.add_to_cart'']),
         (''cart_link'',
          [''.cart-contents'', ''.woocommerce-cart-link'', ''a.cart-link'']),
         (''checkout_button'',
          [''.checkout-button'', ''.wc-proceed-to-checkout .button'',
           ''a.checkout-button.button.alt.wc-forward'']),
         (''coupon_field'',
          [''#coupon_code'', ''.coupon #coupon_code'', ''input[name="coupon_code"]'']),
         (''coupon_button'',
          [''button[name="apply_coupon"]'', ''.coupon .button'', ''.coupon button'']),
         (''coupon_success'',
          [''.woocommerce-message'', ''.woocommerce-notice--success'',
           ''.woocommerce-info:contains("Coupon")'']),
         (''coupon_error'',
          [''.woocommerce-error'', ''.woocommerce-notice--error'', ''.woocommerce-error li'']),
         (''discount_amount'',
          [''.cart-discount .amount'', ''.discount-total'', ''tr.cart-discount td''])]),
      (''shopify'',
        [(''product_grid'',
          [''.product-grid .grid__item'', ''.product-card'', ''.product-list .product-item'']),
         (''add_to_cart'',
          [''.add-to-cart'', ''.product-form__submit'', ''button[name="add"]'']),
         (''cart_link'',
          [''.cart-link'', ''.cart-icon-link'', ''a[href="/cart"]'']),
         (''checkout_button'',
          [''.checkout-button'', ''input[name="checkout"]'', ''button[name="checkout"]'']),
         (''coupon_field'',
          [''#checkout_reduction_code'', ''#discount_input'', ''input[name="discount"]'']),
         (''coupon_button'',
          [''#checkout_submit'', ''.order-summary__section--discount button'',
           ''button:contains("Apply")'']),
         (''coupon_success'',
          [''.reduction-code__text'', ''.applied-reduction-code__information'',
           ''.notice--success'']),
         (''coupon_error'',
          [''.field__message--error'', ''.error-message'', ''.notice--error'']),
         (''discount_amount'',
          [''.reduction-code__amount'', ''.total-recap__discount-amount'', ''.discount-tag''])]),
      (''opencart'',
        [(''product_grid'',
          [''.product-layout'', ''.product-grid'', ''.product-thumb'']),
         (''add_to_cart'',
          [''#button-cart'', ''.btn-primary:contains("Add to Cart")'',
           ''button[onclick*="cart.add"]'']),
         (''cart_link'',
          [''#cart'', ''#cart-total'', ''a[href*="route=checkout/cart"]'']),
         (''checkout_button'',
          [''.btn-primary:contains("Checkout")'', ''a[href*="route=checkout/checkout"]'',
           ''#button-checkout'']),
         (''coupon_field'',
          [''#input-coupon'', ''input[name="coupon"]'', ''#collapse-coupon input'']),
         (''coupon_button'',
          [''#button-coupon'', ''.btn-primary:contains("Apply Coupon")'',
           ''input[type="button"][value="Apply Coupon"]'']),
         (''coupon_success'',
          [''.alert-success'', ''.alert.alert-success'', ''.text-success'']),
         (''coupon_error'',
          [''.alert-danger'', ''.alert.alert-danger'', ''.text-danger'']),
         (''discount_amount'',
          [''#total_coupon'', ''.coupon-amount'', ''tr:contains("Coupon") .text-right''])]),
      (''prestashop'',
        [(''product_grid'',
          [''.product-miniature'', ''.products .product'',
           ''.product_list .ajax_block_product'']),
         (''add_to_cart'',
          [''.add-to-cart'', ''.btn.add-to-cart'', ''#add-to-cart-or-refresh button'']),
         (''cart_link'',
          [''.cart-preview'', ''.blockcart'', ''a[href*="controller=cart"]'']),
         (''checkout_button'',
          [''.cart-detailed-actions .btn'', ''.checkout a'', ''a[href*="controller=order"]'']),
         (''coupon_field'',
          [''#promo-code input'', ''input[name="discount_name"]'', ''.promo-input'']),
         (''coupon_button'',
          [''.promo-code button'', ''.promo-code .btn'', ''button:contains("Add")'']),
         (''coupon_success'',
          [''.cart-summary-line.promo-code-line'', ''.alert.alert-success'',
           ''.promo-code-success'']),
         (''coupon_error'',
          [''.alert.alert-danger'', ''.promo-code-error'', ''.js-error-text'']),
         (''discount_amount'',
          [''.cart-summary-line.cart-total .value'', ''.discount .value'',
           ''.discount-price''])]),
      (''bigcommerce'',
        [(''product_grid'',
          [''.product'', ''.card'', ''.productGrid .product'']),
         (''add_to_cart'',
          [''#form-action-addToCart'', ''.add-to-cart'',
           ''button[data-button-type="add-cart"]'']),
         (''cart_link'',
          [''.navUser-item--cart'', ''.cart-icon'', ''a[href="/cart.php"]'']),
         (''checkout_button'',
          [''.checkout-button'', ''.cart-actions .button--primary'',
           ''a[href="/checkout.php"]'']),
         (''coupon_field'',
          [''#couponcode'', ''input[name="couponcode"]'', ''.coupon-code-input'']),
         (''coupon_button'',
          [''.coupon-code-add'', ''input[value="Apply Coupon"]'',
           ''button:contains("Apply Coupon")'']),
         (''coupon_success'',
          [''.coupon-applied'', ''.alert-success'', ''.coupon-code-success'']),
         (''coupon_error'',
          [''.coupon-error'', ''.alert-error'', ''.error-message'']),
         (''discount_amount'',
          [''.cart-total-value'', ''.coupon-discount'', ''.cart-priceItem--promotion''])])]\<close>

text \<open>The inner loop of \<open>identify_platform\<close>: one point per pattern found in the HTML or the URL.\<close>

definition pattern_score :: "regex list \<Rightarrow> string \<Rightarrow> string \<Rightarrow> nat" where
  "pattern_score patterns html_content current_url =
     length (filter (\<lambda>p. re_search_ignorecase p html_content
                          \<or> re_search_ignorecase p current_url) patterns)"

definition score_table ::
  "(string \<times> regex list) list \<Rightarrow> string \<Rightarrow> string \<Rightarrow> (string \<times> nat) list" where
  "score_table table html_content current_url =
     map (\<lambda>(name, patterns). (name, pattern_score patterns html_content current_url)) table"

text \<open>\<open>max(confidence_scores.values())\<close> of a dictionary that is not empty.\<close>

fun max_from :: "nat \<Rightarrow> nat list \<Rightarrow> nat" where
  "max_from m [] = m"
| "max_from m (x # xs) = max_from (max m x) xs"

text \<open>The loop that stops at the first platform, in the order of the dictionary, with the maximal score.\<close>

fun first_with_score :: "nat \<Rightarrow> (string \<times> nat) list \<Rightarrow> string option" where
  "first_with_score max_score [] = None"
| "first_with_score max_score ((name, score) # rest) =
     (if score = max_score then Some name else first_with_score max_score rest)"

definition detect_platform :: "(string \<times> nat) list \<Rightarrow> string" where
  "detect_platform scores =
     (case scores of
        [] \<Rightarrow> ''unknown''
      | (name, score) # rest \<Rightarrow>
          (let max_score = max_from score (map snd rest)
           in if max_score > 0
              then (case first_with_score max_score scores of
                      Some detected \<Rightarrow> detected
                    | None \<Rightarrow> ''unknown'')
              else ''unknown''))"

text \<open>
  \<open>identify_platform\<close> reads the HTML and the URL from the browser. Reading may raise;
  then the \<open>except\<close> branch answers \<open>unknown\<close> with the message. The argument is either
  that message or the HTML and the URL read.
\<close>

definition identify_platform_with ::
  "(string \<times> regex list) list \<Rightarrow> (string \<times> (string \<times> string list) list) list \<Rightarrow>
   string + string \<times> string \<Rightarrow> platform_info" where
  "identify_platform_with patterns_table selectors_table page =
     (case page of
        Inl e \<Rightarrow>
          \<lparr>platform = Some ''unknown'', confidence_scores = None, selectors = Map.empty,
           ai_confidence_scores = None, error = Some e\<rparr>
      | Inr (html_content, current_url) \<Rightarrow>
          (let scores = score_table patterns_table html_content current_url;
               detected_platform = detect_platform scores
           in \<lparr>platform = Some detected_platform, confidence_scores = Some scores,
               selectors = (case map_of selectors_table detected_platform of
                              None \<Rightarrow> Map.empty
                            | Some roles \<Rightarrow> map_of roles),
               ai_confidence_scores = None, error = None\<rparr>))"

definition identify_platform :: "string + string \<times> string \<Rightarrow> platform_info" where
  "identify_platform page = identify_platform_with platform_patterns platform_selectors page"

text \<open>The score a descriptor records for a platform.\<close>

definition score_of :: "platform_info \<Rightarrow> string \<Rightarrow> nat" where
  "score_of info name =
     (case confidence_scores info of
        None \<Rightarrow> 0
      | Some scores \<Rightarrow> (case map_of scores name of None \<Rightarrow> 0 | Some n \<Rightarrow> n))"

text \<open>Python's \<open>token in text\<close>.\<close>

fun starts_with :: "string \<Rightarrow> string \<Rightarrow> bool" where
  "starts_with text [] = True"
| "starts_with [] (c # token) = False"
| "starts_with (d # text) (c # token) = (d = c \<and> starts_with text token)"

fun contains :: "string \<Rightarrow> string \<Rightarrow> bool" where
  "contains [] token = starts_with [] token"
| "contains (d # text) token = (starts_with (d # text) token \<or> contains text token)"

section \<open>browser\_engine.py: \<open>BrowserEngine.navigate\<close>\<close>

text \<open>
  \<open>navigate\<close> tries five strategies in a loop whose body is one \<open>try\<close> block. Everything
  the body asks of the outside (\<open>asyncio.sleep\<close>, the mouse, the page and the browser
  context) may raise, and an exception ends the attempt in the \<open>except\<close> branch. The model
  is given, for each attempt, what every such step did: the message of the exception it
  raised, or its result.

  The body also reads the name \<open>random\<close>, for the jitter of the delay, for the mouse
  position and for the pause after the navigation. The module imports \<open>random\<close> only
  inside \<open>start\<close>, where the import binds a local name of that method; \<open>navigate\<close> looks
  the name up among the globals of the module, where nothing binds it, and the read raises
  \<open>NameError\<close>. \<open>random_lookup\<close> is the outcome of that read: the message of the exception.
\<close>

definition random_lookup :: "string option" where
  "random_lookup = Some ''name 'random' is not defined''"

text \<open>Two steps one after the other: the second runs when the first did not raise.\<close>

definition and_then :: "string option \<Rightarrow> string option \<Rightarrow> string option" where
  "and_then first second = (case first of Some x \<Rightarrow> Some x | None \<Rightarrow> second)"

text \<open>A strategy of the source; its key \<open>method\<close> is the field \<open>strategy_method\<close>.\<close>

datatype nav_method = Normal | Reload | NewTab

record strategy =
  wait_until :: "string option"
  timeout :: nat
  delay :: nat
  strategy_method :: nav_method

definition strategies :: "string option \<Rightarrow> nat \<Rightarrow> strategy list" where
  "strategies wait timeout_ms =
     [\<lparr>wait_until = wait, timeout = timeout_ms, delay = 0, strategy_method = Normal\<rparr>,
      \<lparr>wait_until = Some ''domcontentloaded'', timeout = timeout_ms, delay = 2, strategy_method = Normal\<rparr>,
      \<lparr>wait_until = Some ''load'', timeout = timeout_ms, delay = 4, strategy_method = Normal\<rparr>,
      \<lparr>wait_until = None, timeout = timeout_ms, delay = 8, strategy_method = Reload\<rparr>,
      \<lparr>wait_until = None, timeout = timeout_ms * 2, delay = 16, strategy_method = NewTab\<rparr>]"

text \<open>The two objects the page scripts return; a field of \<open>bot_check\<close> is the truth value of the script's value.\<close>

record content_check =
  bodyExists :: bool
  contentLength :: nat
  hasLinks :: bool
  hasImages :: bool
  hasForms :: bool
  title :: string
  isVisible :: bool
  isInteractive :: bool

record bot_check =
  hasCaptcha :: bool
  hasAccessDenied :: bool
  hasCloudflare :: bool
  hasBotDetection :: bool

text \<open>
  What happened in one attempt. A step that can only raise or pass is \<open>Some message\<close> or
  \<open>None\<close>; \<open>goto\<close> and \<open>reload\<close> raise or return an optional response, of which only the
  status is read; \<open>execute_javascript\<close> never raises and returns \<open>None\<close> when the evaluation
  failed twice.
\<close>

record attempt_env =
  pre_delay :: "string option"
  mouse_move :: "string option"
  goto :: "string + nat option"
  reload :: "string + nat option"
  new_page :: "string option"
  page_close :: "string option"
  settle :: "string option"
  content_check_result :: "content_check option"
  bot_check_result :: "bot_check option"

record navigation_metrics =
  attempts :: nat
  success :: bool
  errors :: "string list"
  response_status :: "nat option"
  content_checks :: "content_check option list"

text \<open>Decimal digits of a number, for the f-strings.\<close>

definition digit_char :: "nat \<Rightarrow> char" where
  "digit_char d = ''0123456789'' ! d"

fun str_nat :: "nat \<Rightarrow> string" where
  "str_nat n =
     (if n < 10 then [digit_char n]
      else str_nat (n div 10) @ [digit_char (n mod 10)])"

declare str_nat.simps [simp del]

text \<open>The three navigation methods.\<close>

definition fetch :: "nav_method \<Rightarrow> attempt_env \<Rightarrow> string + nat option" where
  "fetch m e =
     (case m of
        Normal \<Rightarrow> goto e
      | Reload \<Rightarrow> reload e
      | NewTab \<Rightarrow>
          (case new_page e of
             Some x \<Rightarrow> Inl x
           | None \<Rightarrow> (case page_close e of Some x \<Rightarrow> Inl x | None \<Rightarrow> goto e)))"

text \<open>The message of an \<open>AttributeError\<close>: \<open>'C' object has no attribute 'a'\<close>.\<close>

definition no_attribute :: "string \<Rightarrow> string \<Rightarrow> string" where
  "no_attribute cls attr =
     [CHR 0x27] @ cls @ [CHR 0x27] @ '' object has no attribute '' @ [CHR 0x27] @ attr @ [CHR 0x27]"

definition add_error :: "string \<Rightarrow> navigation_metrics \<Rightarrow> navigation_metrics" where
  "add_error message m = m\<lparr>errors := errors m @ [message]\<rparr>"

text \<open>
  The body of the \<open>try\<close> block, in the order of the source and cut into its stages.
  \<open>Inl\<close> is an exception, with the metrics as they were when it was raised;
  \<open>Inr (True, m)\<close> is \<open>return True\<close> and \<open>Inr (False, m)\<close> is \<open>continue\<close>. Reading a
  field of a script result that is \<open>None\<close> raises, and so does the call of
  \<open>_handle_cloudflare_challenge\<close> or \<open>_handle_captcha_challenge\<close>, which the class does
  not define.
\<close>

type_synonym attempt_outcome =
  "(string \<times> navigation_metrics) + (bool \<times> navigation_metrics)"

text \<open>The bot-detection check and the successful end of the attempt.\<close>

definition bot_stage :: "attempt_env \<Rightarrow> navigation_metrics \<Rightarrow> attempt_outcome" where
  "bot_stage e m =
     (case bot_check_result e of
        None \<Rightarrow> Inl (no_attribute ''NoneType'' ''values'', m)
      | Some bc \<Rightarrow>
          if hasCaptcha bc \<or> hasAccessDenied bc \<or> hasCloudflare bc \<or> hasBotDetection bc
          then (let m = add_error ''Bot detection triggered'' m in
                if hasCloudflare bc
                then Inl (no_attribute ''BrowserEngine'' ''_handle_cloudflare_challenge'', m)
                else if hasCaptcha bc
                then Inl (no_attribute ''BrowserEngine'' ''_handle_captcha_challenge'', m)
                else Inr (False, m))
          else Inr (True, m\<lparr>success := True\<rparr>))"

text \<open>The content check: the body exists and its length is at least 100.\<close>

definition content_stage :: "attempt_env \<Rightarrow> navigation_metrics \<Rightarrow> attempt_outcome" where
  "content_stage e m =
     (let m = m\<lparr>content_checks := content_checks m @ [content_check_result e]\<rparr> in
      case content_check_result e of
        None \<Rightarrow> Inl (no_attribute ''NoneType'' ''get'', m)
      | Some cc \<Rightarrow>
          if \<not> bodyExists cc \<or> contentLength cc < 100
          then Inr (False, add_error ''Insufficient content'' m)
          else bot_stage e m)"

text \<open>
  The response status is stored and checked, then the page is left to settle for
  \<open>3 + random.uniform(0, 2)\<close> seconds.
\<close>

definition response_stage ::
  "attempt_env \<Rightarrow> nat option \<Rightarrow> navigation_metrics \<Rightarrow> attempt_outcome" where
  "response_stage e response m =
     (let m = m\<lparr>response_status := response\<rparr> in
      case (case response of
              Some status \<Rightarrow> if status \<ge> 400 then Some status else None
            | None \<Rightarrow> None) of
        Some status \<Rightarrow> Inr (False, add_error (''HTTP '' @ str_nat status) m)
      | None \<Rightarrow>
          (case and_then random_lookup (settle e) of
             Some x \<Rightarrow> Inl (x, m)
           | None \<Rightarrow> content_stage e m))"

definition attempt_body ::
  "strategy \<Rightarrow> attempt_env \<Rightarrow> navigation_metrics \<Rightarrow> attempt_outcome" where
  "attempt_body st e m =
     (case (if delay st > 0 then and_then random_lookup (pre_delay e) else None) of
        Some x \<Rightarrow> Inl (x, m)
      | None \<Rightarrow>
          (case and_then random_lookup (mouse_move e) of
             Some x \<Rightarrow> Inl (x, m)
           | None \<Rightarrow>
               (case fetch (strategy_method st) e of
                  Inl x \<Rightarrow> Inl (x, m)
                | Inr response \<Rightarrow> response_stage e response m)))"

text \<open>One turn of the loop, attempt \<open>i\<close> counting from 0.\<close>

definition attempt ::
  "nat \<Rightarrow> strategy \<Rightarrow> attempt_env \<Rightarrow> navigation_metrics \<Rightarrow> bool \<times> navigation_metrics" where
  "attempt i st e m =
     (case attempt_body st e (m\<lparr>attempts := attempts m + 1\<rparr>) of
        Inr result \<Rightarrow> result
      | Inl (x, m') \<Rightarrow>
          (False, add_error (''Navigation attempt '' @ str_nat (i + 1) @ '' failed: '' @ x) m'))"

fun run_strategies ::
  "nat \<Rightarrow> strategy list \<Rightarrow> (nat \<Rightarrow> attempt_env) \<Rightarrow> navigation_metrics \<Rightarrow>
   bool \<times> navigation_metrics" where
  "run_strategies i [] env m = (False, m)"
| "run_strategies i (st # rest) env m =
     (case attempt i st (env i) m of
        (True, m') \<Rightarrow> (True, m')
      | (False, m') \<Rightarrow> run_strategies (i + 1) rest env m')"

text \<open>
  \<open>navigate\<close>: without a page it returns \<open>False\<close> at once. The metrics are a local
  variable of the source, written to the log; the model returns them with the result.
\<close>

definition navigate ::
  "bool \<Rightarrow> string option \<Rightarrow> nat \<Rightarrow> (nat \<Rightarrow> attempt_env) \<Rightarrow>
   bool \<times> navigation_metrics option" where
  "navigate page_started wait timeout_ms env =
     (if \<not> page_started then (False, None)
      else (case run_strategies 0 (strategies wait timeout_ms) env
                   \<lparr>attempts = 0, success = False, errors = [], response_status = None,
                    content_checks = []\<rparr> of
              (ok, m) \<Rightarrow> (ok, Some m)))"

text \<open>
  An environment for running the model: no step of the driver raises, the page is good and
  shows no bot signal. \<open>always e\<close> gives every attempt the environment \<open>e\<close>.
\<close>

definition good_page :: attempt_env where
  "good_page =
     \<lparr>pre_delay = None, mouse_move = None, goto = Inr (Some 200), reload = Inr (Some 200),
      new_page = None, page_close = None, settle = None,
      content_check_result =
        Some \<lparr>bodyExists = True, contentLength = 5000, hasLinks = True, hasImages = True,
              hasForms = True, title = ''Shop'', isVisible = True, isInteractive = True\<rparr>,
      bot_check_result =
        Some \<lparr>hasCaptcha = False, hasAccessDenied = False, hasCloudflare = False,
              hasBotDetection = False\<rparr>\<rparr>"

definition always :: "attempt_env \<Rightarrow> nat \<Rightarrow> attempt_env" where
  "always e i = e"

section \<open>input\_handler.py: \<open>InputHandler.validate_inputs\<close>\<close>

text \<open>
  \<open>urlparse\<close> belongs to the standard library: it raises \<open>ValueError\<close> on some strings (an
  unbalanced bracket in the host) and else returns the parts of the URL, of which
  \<open>validate_inputs\<close> reads the scheme and the host. It is a parameter of the model.
\<close>

type_synonym url_parser = "string \<Rightarrow> string + string \<times> string"

definition validate_inputs :: "url_parser \<Rightarrow> string \<Rightarrow> string \<Rightarrow> string + bool" where
  "validate_inputs urlparse coupon_code website_url =
     (if coupon_code = [] \<or> website_url = [] then Inr False
      else if length coupon_code < 2 \<or> length coupon_code > 50 then Inr False
      else (case urlparse website_url of
              Inl e \<Rightarrow> Inl e
            | Inr (scheme, netloc) \<Rightarrow>
                if scheme = [] \<or> netloc = [] then Inr False else Inr True))"

section \<open>browser\_engine.py: \<open>start\<close> and \<open>close\<close>\<close>

text \<open>
  The engine holds four resources, each \<open>None\<close> until \<open>start\<close> acquires it: the driver
  (\<open>playwright\<close>), the browser, the context and the page.
\<close>

datatype resource = Page | Context | Browser | Playwright

record engine_state =
  page_open :: bool
  context_open :: bool
  browser_open :: bool
  playwright_running :: bool

definition new_engine :: engine_state where
  "new_engine =
     \<lparr>page_open = False, context_open = False, browser_open = False,
      playwright_running = False\<rparr>"

text \<open>
  \<open>start\<close> acquires the driver, the browser, the context and the page in this order inside
  one \<open>try\<close> block and never raises: an exception stops it and leaves what it had acquired.
  The argument is the number of acquisitions made, 4 when all were.
\<close>

definition start :: "nat \<Rightarrow> engine_state" where
  "start acquired =
     \<lparr>page_open = (4 \<le> acquired), context_open = (3 \<le> acquired),
      browser_open = (2 \<le> acquired), playwright_running = (1 \<le> acquired)\<rparr>"

fun holds :: "engine_state \<Rightarrow> resource \<Rightarrow> bool" where
  "holds s Page = page_open s"
| "holds s Context = context_open s"
| "holds s Browser = browser_open s"
| "holds s Playwright = playwright_running s"

fun set_none :: "resource \<Rightarrow> engine_state \<Rightarrow> engine_state" where
  "set_none Page s = s\<lparr>page_open := False\<rparr>"
| "set_none Context s = s\<lparr>context_open := False\<rparr>"
| "set_none Browser s = s\<lparr>browser_open := False\<rparr>"
| "set_none Playwright s = s\<lparr>playwright_running := False\<rparr>"

text \<open>
  \<open>close\<close> releases what is held, the page first and the driver last, inside one \<open>try\<close>
  block whose \<open>except\<close> branch logs the exception and returns. A release call of the driver
  may raise (the first argument says which do); the resource is then still held, its field
  not being reset, and the releases after it are not made. The result is the new state and
  the resources released.
\<close>

fun close_seq ::
  "(resource \<Rightarrow> bool) \<Rightarrow> resource list \<Rightarrow> engine_state \<Rightarrow> engine_state \<times> resource list" where
  "close_seq raises [] s = (s, [])"
| "close_seq raises (r # rest) s =
     (if holds s r then
        (if raises r then (s, [])
         else (case close_seq raises rest (set_none r s) of
                 (s', released) \<Rightarrow> (s', r # released)))
      else close_seq raises rest s)"

definition close :: "(resource \<Rightarrow> bool) \<Rightarrow> engine_state \<Rightarrow> engine_state \<times> resource list" where
  "close raises s = close_seq raises [Page, Context, Browser, Playwright] s"

section \<open>main.py: \<open>validate_coupon\<close>\<close>

text \<open>
  What a run does to the browser, in order, and how it ends: with a result dictionary, with
  the \<open>UnboundLocalError\<close> of a name read before its assignment, or with another
  exception.
\<close>

datatype event = ConstructBrowserEngine | StartBrowser | Navigate | PipelineStep | CloseBrowser

datatype run_outcome =
  Returned "string \<rightharpoonup> pyval"
  | RaisedUnboundLocalError
  | RaisedException string

text \<open>
  The outside of a run: the URL parser; an exception raised by one of the constructors of
  lines 63 to 67 and one raised by the constructor of \<open>ResultReporter\<close> (both make a
  directory); how far \<open>start\<close> got; what each attempt of each call of \<open>navigate\<close> meets;
  which release calls raise; the clock; and the stages that follow a successful navigation
  (lines 120 to 237), given by the exception or the result they end with and by what they
  do to the browser.
\<close>

record run_env =
  urlparse :: url_parser
  setup_raises :: "string option"
  reporter_raises :: "string option"
  acquired :: nat
  nav_env :: "nat \<Rightarrow> nat \<Rightarrow> attempt_env"
  release_raises :: "resource \<Rightarrow> bool"
  now :: string
  pipeline :: "(string + (string \<rightharpoonup> pyval)) \<times> event list"

text \<open>
  The retry loop of lines 86 to 109 over three wait policies. It stops at the first
  successful call and collects one message for each failed one. \<open>navigate\<close> catches its
  own exceptions, so the \<open>except\<close> branch of the loop is not taken.
\<close>

fun navigation_loop ::
  "bool \<Rightarrow> nat \<Rightarrow> (nat \<Rightarrow> nat \<Rightarrow> attempt_env) \<Rightarrow> nat \<Rightarrow> string list \<Rightarrow>
   bool \<times> string list \<times> event list" where
  "navigation_loop page_started timeout_ms env k [] = (False, [], [])"
| "navigation_loop page_started timeout_ms env k (wait # rest) =
     (if fst (navigate page_started (Some wait) timeout_ms (env k))
      then (True, [], [Navigate])
      else (case navigation_loop page_started timeout_ms env (k + 1) rest of
              (ok, navigation_errors, events) \<Rightarrow>
                (ok, (''Navigation failed with strategy: '' @ wait) # navigation_errors,
                 Navigate # events)))"

text \<open>\<open>'; '.join(navigation_errors)\<close>\<close>

fun join_errors :: "string list \<Rightarrow> string" where
  "join_errors [] = []"
| "join_errors [e] = e"
| "join_errors (e # rest) = e @ ''; '' @ join_errors rest"

text \<open>
  The \<open>finally\<close> block: \<open>close\<close> is called on the engine and the run ends as it was going to.
\<close>

definition finally_close ::
  "run_env \<Rightarrow> engine_state \<Rightarrow> event list \<Rightarrow> run_outcome \<Rightarrow>
   run_outcome \<times> event list \<times> engine_state option" where
  "finally_close env s events outcome =
     (outcome, events @ [CloseBrowser], Some (fst (close (release_raises env) s)))"

text \<open>
  The \<open>except\<close> branch of the run when the engine exists: it builds the reporter if the
  \<open>try\<close> block had not (the constructor may raise again), formats the error result, and
  saves it inside a \<open>try\<close> block of its own.
\<close>

definition handle_error ::
  "run_env \<Rightarrow> string \<Rightarrow> string \<Rightarrow> string \<Rightarrow> run_outcome" where
  "handle_error env coupon_code website_url e =
     (case reporter_raises env of
        Some e2 \<Rightarrow> RaisedException e2
      | None \<Rightarrow>
          Returned (format_result (now env) coupon_code website_url False ''Validation error''
                      (Some e) None None))"

text \<open>
  \<open>validate_coupon\<close>. The value \<open>validate_inputs\<close> returns is not read. When
  \<open>validate_inputs\<close> raises, the \<open>except\<close> branch runs with no engine, and the \<open>finally\<close>
  block then reads the name \<open>browser_engine\<close>, which no assignment has reached: the run
  ends with \<open>UnboundLocalError\<close>. The branch after a successful navigation is written
  out for completeness; \<open>navigate\<close> returning \<open>False\<close> in every run, it is never taken.
\<close>

definition validate_coupon ::
  "run_env \<Rightarrow> string \<Rightarrow> string \<Rightarrow> nat \<Rightarrow> run_outcome \<times> event list \<times> engine_state option" where
  "validate_coupon env coupon_code website_url timeout_ms =
     (case validate_inputs (urlparse env) coupon_code website_url of
        Inl e \<Rightarrow> (RaisedUnboundLocalError, [], None)
      | Inr checked \<Rightarrow>
          (case setup_raises env of
             Some e \<Rightarrow>
               finally_close env new_engine [ConstructBrowserEngine]
                 (handle_error env coupon_code website_url e)
           | None \<Rightarrow>
          (case reporter_raises env of
             Some e \<Rightarrow>
               finally_close env new_engine [ConstructBrowserEngine]
                 (handle_error env coupon_code website_url e)
           | None \<Rightarrow>
          (let s = start (acquired env) in
           case navigation_loop (page_open s) timeout_ms (nav_env env) 0
                  [''networkidle'', ''domcontentloaded'', ''load''] of
             (navigation_success, navigation_errors, nav_events) \<Rightarrow>
               (let events = [ConstructBrowserEngine, StartBrowser] @ nav_events in
                if \<not> navigation_success then
                  finally_close env s events
                    (Returned (format_result (now env) coupon_code website_url False
                       ''Navigation failed''
                       (Some (''Failed to navigate to the website after multiple attempts: ''
                              @ join_errors navigation_errors))
                       None None))
                else
                  (case pipeline env of
                     (Inl e, steps) \<Rightarrow>
                       finally_close env s (events @ steps)
                         (handle_error env coupon_code website_url e)
                   | (Inr result, steps) \<Rightarrow>
                       finally_close env s (events @ steps) (Returned result)))))))"

text \<open>
  An environment in which nothing outside goes wrong, a second one in which closing the page
  raises, and a URL parser for the two URLs used below, which \<open>urlparse\<close> splits into
  scheme and host as shown (\<open>example.com\<close> alone is a path: no scheme, no host).
\<close>

definition parse_known :: url_parser where
  "parse_known u =
     (if u = ''https://example.com'' then Inr (''https'', ''example.com'')
      else if u = ''example.com'' then Inr ([], [])
      else Inl ''Invalid IPv6 URL'')"

definition no_release_raises :: "resource \<Rightarrow> bool" where
  "no_release_raises r = False"

definition page_close_raises :: "resource \<Rightarrow> bool" where
  "page_close_raises r = (r = Page)"

definition good_pages :: "nat \<Rightarrow> nat \<Rightarrow> attempt_env" where
  "good_pages k = always good_page"

definition quiet_env :: run_env where
  "quiet_env =
     \<lparr>urlparse = parse_known, setup_raises = None, reporter_raises = None, acquired = 4,
      nav_env = good_pages, release_raises = no_release_raises,
      now = ''2026-01-01 00:00:00'',
      pipeline = (Inl ''unreached'', [])\<rparr>"

definition page_close_raises_env :: run_env where
  "page_close_raises_env = quiet_env\<lparr>release_raises := page_close_raises\<rparr>"

section \<open>main.py and coupon\_applicator.py: the selectors suggested by the AI analysis\<close>

text \<open>
  After the platform is identified, \<open>validate_coupon\<close> runs the AI analysis (lines 125 to
  151). The analysis gives the element types it detected, in the order of its list of
  types, and a confidence for each; \<open>get_element_selectors\<close> gives the selectors made for a
  type. Both are results of the element classifier and parameters of the model. A failed
  analysis detects nothing. For each detected type the loop looks at the descriptor:
  \<open>if element_type in platform_info and not platform_info[element_type]\<close>, that is, when
  the descriptor has the role with an empty ladder, the suggested selectors are put in
  front of it. The confidences are then stored under \<open>ai_confidence_scores\<close>.
\<close>

definition merge_role :: "(string \<Rightarrow> string list) \<Rightarrow> string \<Rightarrow> platform_info \<Rightarrow> platform_info" where
  "merge_role get_element_selectors element_type info =
     (case selectors info element_type of
        None \<Rightarrow> info
      | Some existing \<Rightarrow>
          if existing = [] then
            (let ai_selectors = get_element_selectors element_type in
             if ai_selectors \<noteq> []
             then info\<lparr>selectors := (selectors info)(element_type \<mapsto> ai_selectors @ existing)\<rparr>
             else info)
          else info)"

definition enhance_with_ai ::
  "(string \<Rightarrow> string list) \<Rightarrow> string list \<Rightarrow> (string \<rightharpoonup> rat) \<Rightarrow> platform_info \<Rightarrow> platform_info" where
  "enhance_with_ai get_element_selectors detected_elements scores info =
     (if detected_elements \<noteq> []
      then (fold (merge_role get_element_selectors) detected_elements info)
             \<lparr>ai_confidence_scores := Some scores\<rparr>
      else info)"

text \<open>
  \<open>apply_coupon\<close> finds the coupon field (lines 46 to 158) and the apply button (lines 160
  to 261) with the loop below: the first visible selector of a list wins. It reads
  \<open>ai_confidence_scores\<close> and compares with the threshold, but the flags it sets,
  \<open>has_ai_detection\<close> and \<open>has_ai_button_detection\<close>, only choose between the words
  \<open>AI-enhanced\<close> and \<open>platform-specific\<close> in a log message, which the model leaves out.
  The script fallback of both searches calls \<open>browser_engine.evaluate\<close>; the class has no
  such method (its method is \<open>execute_javascript\<close>), the call raises, the exception is
  caught on the spot, and the search goes on as if the script had found nothing.
  \<open>fill\<close>, \<open>click\<close> and \<open>press_key\<close> act on the page.
\<close>

record 'w page_actions =
  fill :: "string \<Rightarrow> string \<Rightarrow> 'w \<Rightarrow> 'w"
  click :: "string \<Rightarrow> 'w \<Rightarrow> 'w"
  press_key :: "string \<Rightarrow> string \<Rightarrow> 'w \<Rightarrow> 'w"

datatype found_by = BySelector string | ByEnter string | NotFound

fun first_visible :: "'w browser_engine \<Rightarrow> string list \<Rightarrow> 'w \<Rightarrow> string option \<times> 'w" where
  "first_visible be [] w = (None, w)"
| "first_visible be (selector # rest) w =
     (case is_visible be selector w of
        (True, w1) \<Rightarrow> (Some selector, w1)
      | (False, w1) \<Rightarrow> first_visible be rest w1)"

text \<open>The ladder of the descriptor for a role, used when the platform is known.\<close>

definition platform_ladder :: "platform_info \<Rightarrow> string \<Rightarrow> string list" where
  "platform_ladder info role = (if known_platform info then ladder info role else [])"

definition coupon_toggle_selectors :: "string list" where
  \<open>coupon_toggle_selectors =
     [''a:has-text("coupon")'', ''span:has-text("coupon")'', ''div:has-text("coupon")'',
      ''.showcoupon'', ''#block-discount-heading'',
      ''.payment-option-title:has-text("Apply Discount Code")'', ''.coupon-trigger'',
      ''.coupon-code-trigger'', ''.discount-trigger'', ''.promo-trigger'']\<close>

definition coupon_field_selectors :: "string list" where
  \<open>coupon_field_selectors =
     [''input[name="coupon_code"]'', ''input[id="coupon_code"]'',
      ''input[name*="coupon"]'', ''input[id*="coupon"]'', ''input[placeholder*="coupon"]'',
      ''input[placeholder*="Coupon"]'', ''input[placeholder*="promo"]'',
      ''input[placeholder*="Promo"]'', ''input[placeholder*="discount"]'',
      ''input[placeholder*="Discount"]'', ''input[name="discount_code"]'',
      ''input[id="discount_code"]'', ''input[name*="discount"]'',
      ''input[id*="discount"]'', ''input[name="promo_code"]'', ''input[id="promo_code"]'',
      ''input[name*="promo"]'', ''input[id*="promo"]'', ''#checkout-discount-input'',
      ''.coupon-code-field input'', ''.discount-code-field input'',
      ''.promo-code-field input'']\<close>

definition apply_button_selectors :: "string list" where
  \<open>apply_button_selectors =
     [''button[name="apply_coupon"]'', ''button[id="apply_coupon"]'',
      ''button:has-text("Apply")'', ''button:has-text("apply")'',
      ''button:has-text("Apply Coupon")'', ''button:has-text("Apply coupon")'',
      ''button:has-text("Apply Discount")'', ''button:has-text("Apply discount")'',
      ''button:has-text("Apply Promo")'', ''button:has-text("Apply promo")'',
      ''input[value="Apply"]'', ''input[value="Apply Coupon"]'',
      ''input[value="Apply Discount"]'', ''input[value="Apply Promo"]'', ''.apply-coupon'',
      ''.apply-discount'', ''.apply-promo'', ''#discount-coupon-form .action.primary'',
      ''.discount-form .action.primary'', ''.coupon-form .action.primary'',
      ''.promo-form .action.primary'']\<close>

definition enter_field_selectors :: "string list" where
  \<open>enter_field_selectors =
     [''input[name="coupon_code"]'', ''input[id="coupon_code"]'',
      ''input[name*="coupon"]'', ''input[id*="coupon"]'', ''input[name="discount_code"]'',
      ''input[id="discount_code"]'', ''input[name*="discount"]'',
      ''input[id*="discount"]'', ''input[name="promo_code"]'', ''input[id="promo_code"]'',
      ''input[name*="promo"]'', ''input[id*="promo"]'']\<close>

definition fill_coupon_field ::
  "'w browser_engine \<Rightarrow> 'w page_actions \<Rightarrow> platform_info \<Rightarrow> string \<Rightarrow> 'w \<Rightarrow> found_by \<times> 'w" where
  "fill_coupon_field be act info coupon_code w =
     (case first_visible be (platform_ladder info ''coupon_field'') w of
        (Some selector, w1) \<Rightarrow> (BySelector selector, fill act selector coupon_code w1)
      | (None, w1) \<Rightarrow>
          (let w2 = (case first_visible be coupon_toggle_selectors w1 of
                       (Some toggle, w') \<Rightarrow> click act toggle w'
                     | (None, w') \<Rightarrow> w')
           in case first_visible be coupon_field_selectors w2 of
                (Some selector, w3) \<Rightarrow> (BySelector selector, fill act selector coupon_code w3)
              | (None, w3) \<Rightarrow> (NotFound, w3)))"

definition click_apply_button ::
  "'w browser_engine \<Rightarrow> 'w page_actions \<Rightarrow> platform_info \<Rightarrow> 'w \<Rightarrow> found_by \<times> 'w" where
  "click_apply_button be act info w =
     (case first_visible be (platform_ladder info ''coupon_button'') w of
        (Some selector, w1) \<Rightarrow> (BySelector selector, click act selector w1)
      | (None, w1) \<Rightarrow>
          (case first_visible be apply_button_selectors w1 of
             (Some selector, w2) \<Rightarrow> (BySelector selector, click act selector w2)
           | (None, w2) \<Rightarrow>
               (case first_visible be enter_field_selectors w2 of
                  (Some selector, w3) \<Rightarrow> (ByEnter selector, press_key act selector ''Enter'' w3)
                | (None, w3) \<Rightarrow> (NotFound, w3))))"

text \<open>
  A Magento page, an analysis that detects the coupon field with confidence 0.95 and
  suggests one selector for it, and the descriptor that results.
\<close>

definition magento_info :: platform_info where
  "magento_info = identify_platform (Inr (''Magento'', []))"

definition suggested :: "string \<Rightarrow> string list" where
  "suggested element_type = (if element_type = ''coupon_field'' then [''#promo-input''] else [])"

definition suggested_scores :: "string \<rightharpoonup> rat" where
  "suggested_scores = [''coupon_field'' \<mapsto> 95 / 100]"

definition enhanced_info :: platform_info where
  "enhanced_info = enhance_with_ai suggested [''coupon_field''] suggested_scores magento_info"

definition no_actions :: "unit page_actions" where
  "no_actions = \<lparr>fill = (\<lambda>selector v w. w), click = (\<lambda>selector w. w),
                  press_key = (\<lambda>selector k w. w)\<rparr>"

section \<open>Properties of \<open>format_result\<close>\<close>

lemma dom_set_if_truthy:
  "dom (set_if_truthy key v result) = (if truthy v then insert key (dom result) else dom result)"
  by (simp add: set_if_truthy_def truthy_def split: option.splits)

lemma format_result_dom:
  "dom (format_result ts cc url valid st e d s) =
     {''coupon_code'', ''website_url'', ''timestamp'', ''is_valid'', ''status''}
     \<union> (if truthy e then {''error_message''} else {})
     \<union> (if truthy d then {''discount_amount''} else {})
     \<union> (if truthy s then {''screenshot_path''} else {})"
  by (auto simp: format_result_def Let_def dom_set_if_truthy)

text \<open>
  C10. For all arguments the result of \<open>format_result\<close> has the keys \<open>coupon_code\<close>,
  \<open>website_url\<close>, \<open>timestamp\<close>, \<open>is_valid\<close> and \<open>status\<close>; it has \<open>error_message\<close>,
  \<open>discount_amount\<close> and \<open>screenshot_path\<close> exactly when the corresponding argument is
  truthy. The second conjunct is the consequence the claim draws: an empty-string
  \<open>error_message\<close> or \<open>discount_amount\<close> is absent from the result.
\<close>

theorem format_result_keys:
  "(k \<in> dom (format_result ts cc url valid st e d s) \<longleftrightarrow>
      k \<in> {''coupon_code'', ''website_url'', ''timestamp'', ''is_valid'', ''status''}
      \<or> (k = ''error_message'' \<and> truthy e)
      \<or> (k = ''discount_amount'' \<and> truthy d)
      \<or> (k = ''screenshot_path'' \<and> truthy s))
   \<and> format_result ts cc url valid st (Some []) d s ''error_message'' = None
   \<and> format_result ts cc url valid st e (Some []) s ''discount_amount'' = None"
proof -
  have empty_falsy: "\<not> truthy (Some [])"
    by (simp add: truthy_def)
  have "''error_message'' \<notin> dom (format_result ts cc url valid st (Some []) d s)"
    unfolding format_result_dom using empty_falsy by simp
  then have no_error: "format_result ts cc url valid st (Some []) d s ''error_message'' = None"
    by (simp add: domIff)
  have "''discount_amount'' \<notin> dom (format_result ts cc url valid st e (Some []) s)"
    unfolding format_result_dom using empty_falsy by simp
  then have no_discount:
    "format_result ts cc url valid st e (Some []) s ''discount_amount'' = None"
    by (simp add: domIff)
  have keys: "k \<in> dom (format_result ts cc url valid st e d s) \<longleftrightarrow>
      k \<in> {''coupon_code'', ''website_url'', ''timestamp'', ''is_valid'', ''status''}
      \<or> (k = ''error_message'' \<and> truthy e)
      \<or> (k = ''discount_amount'' \<and> truthy d)
      \<or> (k = ''screenshot_path'' \<and> truthy s)"
    unfolding format_result_dom by (auto split: if_splits)
  from keys no_error no_discount show ?thesis
    by blast
qed

section \<open>Properties of the result classifier\<close>

lemma compose_verdict_keeps_error:
  "error_message (compose_verdict r d) = error_message r"
  by (simp add: compose_verdict_def Let_def)

lemma compose_verdict_error:
  "error_message r \<noteq> None \<Longrightarrow> \<not> is_valid r \<Longrightarrow> \<not> is_valid (compose_verdict r d)"
  by (auto simp add: compose_verdict_def Let_def)

lemma check_success_error:
  "error_message (fst (check_success be l rw)) = error_message (fst rw)"
  by (simp add: check_success_def split: prod.splits option.splits)

lemma check_error_inv:
  "(error_message (fst rw) \<noteq> None \<longrightarrow> \<not> is_valid (fst rw)) \<Longrightarrow>
   (error_message (fst (check_error be l rw)) \<noteq> None
      \<longrightarrow> \<not> is_valid (fst (check_error be l rw)))"
  by (simp add: check_error_def split: prod.splits option.splits)

lemma check_error_after_success:
  "error_message (fst rw) = None \<Longrightarrow>
   (error_message (fst (check_error be l (check_success be l' rw))) \<noteq> None
      \<longrightarrow> \<not> is_valid (fst (check_error be l (check_success be l' rw))))"
  by (rule check_error_inv) (simp add: check_success_error)

lemma check_messages_inv:
  "error_message (fst (check_messages be info w)) \<noteq> None
     \<longrightarrow> \<not> is_valid (fst (check_messages be info w))"
  unfolding check_messages_def Let_def
  using check_error_after_success [of _ be]
  by (auto simp del: not_None_eq)

lemma strip_amount: "strip ''$0.00'' = ''$0.00''" "strip ''$5.00'' = ''$5.00''"
  by (simp_all add: strip_def py_isspace_def)

lemmas classifier_defs =
  check_validation_result_def check_messages_def check_success_def check_error_def
  extract_discount_amount_def compose_verdict_def known_platform_def unknown_platform_def
  page_browser_def amount_search_def success_selectors_def error_selectors_def
  discount_selectors_def ai_confident_def ladder_def truthy_def strip_amount Let_def

lemma error_and_discount_page:
  "fst (check_validation_result amount_search
          (page_browser [''.coupon-error'' \<mapsto> ''Coupon code is invalid'',
                         ''.discount-amount'' \<mapsto> ''$0.00'']) unknown_platform ())
   = \<lparr>is_valid = False, discount_amount = Some ''$0.00'', success_message = None,
      error_message = Some ''Coupon code is invalid''\<rparr>"
  by (simp add: classifier_defs)

text \<open>
  C1. Whatever the browser and the regular expression engine answer, and whatever the
  platform descriptor holds, a verdict of \<open>_check_validation_result\<close> with an
  \<open>error_message\<close> has \<open>is_valid = False\<close>. (A message is only ever stored when it is
  truthy, so a stored message is a non-empty one.) The \<open>except\<close> branch of the source
  returns the verdict built so far; no call of the model raises, \<open>is_visible\<close>,
  \<open>get_text\<close> and \<open>get_html_content\<close> catching every exception themselves.
\<close>

theorem error_message_forces_invalid:
  "error_message (fst (check_validation_result re_search be info w)) \<noteq> None \<Longrightarrow>
   \<not> is_valid (fst (check_validation_result re_search be info w))"
  using check_messages_inv [of be info w]
  by (auto simp: check_validation_result_def compose_verdict_keeps_error compose_verdict_error
      split: prod.splits simp del: not_None_eq)

text \<open>
  The witness is the page of the spec's scenario 4: an error element and a discount
  element reading \<open>$0.00\<close>.
\<close>

theorem error_message_forces_invalid_witness:
  "error_message (fst (check_validation_result amount_search
           (page_browser [''.coupon-error'' \<mapsto> ''Coupon code is invalid'',
                          ''.discount-amount'' \<mapsto> ''$0.00'']) unknown_platform ())) \<noteq> None
   \<and> \<not> is_valid (fst (check_validation_result amount_search
           (page_browser [''.coupon-error'' \<mapsto> ''Coupon code is invalid'',
                          ''.discount-amount'' \<mapsto> ''$0.00'']) unknown_platform ()))"
  using error_message_forces_invalid [of amount_search
           "page_browser [''.coupon-error'' \<mapsto> ''Coupon code is invalid'',
                          ''.discount-amount'' \<mapsto> ''$0.00'']" unknown_platform "()"]
  by (simp add: error_and_discount_page)

text \<open>
  C2. When the message ladders found neither a success nor an error message and
  \<open>_extract_discount_amount\<close> then returns an amount (a truthy string), the verdict is the
  verdict of the message phase with \<open>is_valid = True\<close> and \<open>discount_amount\<close> set to the
  extracted string.
\<close>

theorem discount_without_message_is_valid:
  assumes "check_messages be info w = (r1, w1)"
    and "success_message r1 = None" and "error_message r1 = None"
    and "extract_discount_amount re_search be info w1 = (Some d, w2)"
    and "d \<noteq> []"
  shows "check_validation_result re_search be info w =
           (r1\<lparr>is_valid := True, discount_amount := Some d\<rparr>, w2)"
  using assms by (simp add: check_validation_result_def compose_verdict_def truthy_def Let_def)

text \<open>
  The witness is a page with no message and one discount element reading \<open>$5.00\<close>.
\<close>

lemma discount_only_messages:
  "check_messages (page_browser [''.discount-amount'' \<mapsto> ''$5.00'']) unknown_platform ()
   = (\<lparr>is_valid = False, discount_amount = None, success_message = None,
       error_message = None\<rparr>, ())"
  by (simp add: classifier_defs)

lemma discount_only_extract:
  "extract_discount_amount amount_search (page_browser [''.discount-amount'' \<mapsto> ''$5.00''])
     unknown_platform () = (Some ''$5.00'', ())"
  by (simp add: classifier_defs)

theorem discount_without_message_is_valid_witness:
  "check_validation_result amount_search (page_browser [''.discount-amount'' \<mapsto> ''$5.00''])
     unknown_platform ()
   = (\<lparr>is_valid = True, discount_amount = Some ''$5.00'', success_message = None,
       error_message = None\<rparr>, ())"
  using discount_without_message_is_valid [OF discount_only_messages _ _ discount_only_extract]
  by simp

section \<open>Properties of platform identification\<close>

lemma max_from_ge_init: "m \<le> max_from m xs"
  by (induction xs arbitrary: m) (auto intro: order_trans [OF max.cobounded1])

lemma max_from_ge_elem: "x \<in> set xs \<Longrightarrow> x \<le> max_from m xs"
proof (induction xs arbitrary: m)
  case Nil
  then show ?case by simp
next
  case (Cons y ys)
  show ?case
  proof (cases "x = y")
    case True
    have "y \<le> max m y" by simp
    also have "\<dots> \<le> max_from (max m y) ys" by (rule max_from_ge_init)
    finally show ?thesis using True by simp
  next
    case False
    with Cons show ?thesis by simp
  qed
qed

lemma max_from_mem: "max_from m xs \<in> set (m # xs)"
proof (induction xs arbitrary: m)
  case Nil
  then show ?case by simp
next
  case (Cons y ys)
  have "max_from (max m y) ys \<in> set (max m y # ys)" by (rule Cons.IH)
  then show ?case by (auto simp: max_def split: if_splits)
qed

lemma first_with_score_found:
  "m \<in> snd ` set scores \<Longrightarrow>
   \<exists>i<length scores. first_with_score m scores = Some (fst (scores ! i))
      \<and> snd (scores ! i) = m \<and> (\<forall>j<i. snd (scores ! j) \<noteq> m)"
proof (induction scores)
  case Nil
  then show ?case by simp
next
  case (Cons a scores)
  obtain name score where a: "a = (name, score)" by (cases a)
  show ?case
  proof (cases "score = m")
    case True
    then have "first_with_score m (a # scores) = Some (fst ((a # scores) ! 0))
      \<and> snd ((a # scores) ! 0) = m \<and> (\<forall>j<0. snd ((a # scores) ! j) \<noteq> m)"
      using a by simp
    then show ?thesis by blast
  next
    case False
    with Cons.prems a have "m \<in> snd ` set scores" by auto
    from Cons.IH [OF this] obtain i where i: "i < length scores"
      "first_with_score m scores = Some (fst (scores ! i))" "snd (scores ! i) = m"
      "\<forall>j<i. snd (scores ! j) \<noteq> m" by blast
    have "\<forall>j<Suc i. snd ((a # scores) ! j) \<noteq> m"
    proof (intro allI impI)
      fix j assume "j < Suc i"
      then show "snd ((a # scores) ! j) \<noteq> m"
        using i(4) False a by (cases j) auto
    qed
    with i False a have "Suc i < length (a # scores)
      \<and> first_with_score m (a # scores) = Some (fst ((a # scores) ! Suc i))
      \<and> snd ((a # scores) ! Suc i) = m \<and> (\<forall>j<Suc i. snd ((a # scores) ! j) \<noteq> m)"
      by simp
    then show ?thesis by blast
  qed
qed

lemma detect_platform_all_zero:
  assumes "\<forall>i<length scores. snd (scores ! i) = 0"
  shows "detect_platform scores = ''unknown''"
proof (cases scores)
  case Nil
  then show ?thesis by (simp add: detect_platform_def)
next
  case (Cons a rest)
  obtain name score where a: "a = (name, score)" by (cases a)
  have all0: "\<forall>x \<in> set (map snd scores). x = 0"
  proof
    fix x assume "x \<in> set (map snd scores)"
    then obtain i where "i < length scores" "x = snd (scores ! i)"
      by (auto simp: in_set_conv_nth)
    with assms show "x = 0" by simp
  qed
  have "max_from score (map snd rest) \<in> set (score # map snd rest)"
    by (rule max_from_mem)
  then have "max_from score (map snd rest) = 0"
    using all0 Cons a by auto
  then show ?thesis using Cons a by (simp add: detect_platform_def)
qed

lemma detect_platform_first_max:
  assumes "\<exists>i<length scores. 0 < snd (scores ! i)"
  shows "\<exists>i<length scores. detect_platform scores = fst (scores ! i)
           \<and> 0 < snd (scores ! i)
           \<and> (\<forall>j<length scores. snd (scores ! j) \<le> snd (scores ! i))
           \<and> (\<forall>j<i. snd (scores ! j) < snd (scores ! i))"
proof (cases scores)
  case Nil
  with assms show ?thesis by simp
next
  case (Cons a rest)
  obtain name score where a: "a = (name, score)" by (cases a)
  define m where "m = max_from score (map snd rest)"
  have vals: "map snd scores = score # map snd rest"
    using Cons a by simp
  have m_mem: "m \<in> snd ` set scores"
    using max_from_mem [of score "map snd rest"] vals unfolding m_def
    by (metis list.set_map)
  have m_ge: "snd (scores ! j) \<le> m" if "j < length scores" for j
  proof -
    have "snd (scores ! j) \<in> set (score # map snd rest)"
      using that vals by (metis length_map nth_map nth_mem)
    then show ?thesis
      unfolding m_def using max_from_ge_init [of score "map snd rest"]
        max_from_ge_elem [of _ "map snd rest" score] by auto
  qed
  from assms obtain k where "k < length scores" "0 < snd (scores ! k)" by blast
  with m_ge [of k] have m_pos: "0 < m" by simp
  from first_with_score_found [OF m_mem] obtain i where i: "i < length scores"
    "first_with_score m scores = Some (fst (scores ! i))" "snd (scores ! i) = m"
    "\<forall>j<i. snd (scores ! j) \<noteq> m" by blast
  have "detect_platform scores = fst (scores ! i)"
    using Cons a m_pos i(2) unfolding detect_platform_def m_def by simp
  moreover have "\<forall>j<i. snd (scores ! j) < snd (scores ! i)"
  proof (intro allI impI)
    fix j assume "j < i"
    with i(1) have "j < length scores" by simp
    from m_ge [OF this] i(4) \<open>j < i\<close> i(3) show "snd (scores ! j) < snd (scores ! i)"
      by (simp add: le_neq_implies_less)
  qed
  ultimately show ?thesis
    using i(1) i(3) m_pos m_ge by blast
qed


lemma score_table_nth:
  assumes "i < length table"
  shows "score_table table html url ! i =
           (fst (table ! i),
            card {k. k < length (snd (table ! i))
                     \<and> (re_search_ignorecase (snd (table ! i) ! k) html
                          \<or> re_search_ignorecase (snd (table ! i) ! k) url)})"
  using assms
  by (simp add: score_table_def pattern_score_def length_filter_conv_card split: prod.splits)

text \<open>
  C6. For every HTML and URL, and every table of signature patterns, \<open>identify_platform\<close>
  records for each platform the number of its patterns that match the HTML or the URL.
  When every platform scores zero the tag is \<open>unknown\<close>. Otherwise the tag is the platform
  at the first position of the table, in declaration order, whose score is the maximum:
  no score is higher and every earlier score is strictly lower.
\<close>

theorem identify_platform_highest_score:
  "confidence_scores (identify_platform_with table sel (Inr (html, url)))
     = Some (score_table table html url)
   \<and> (\<forall>i<length table. score_table table html url ! i =
           (fst (table ! i),
            card {k. k < length (snd (table ! i))
                     \<and> (re_search_ignorecase (snd (table ! i) ! k) html
                          \<or> re_search_ignorecase (snd (table ! i) ! k) url)}))
   \<and> ((\<forall>i<length table. snd (score_table table html url ! i) = 0) \<longrightarrow>
         platform (identify_platform_with table sel (Inr (html, url))) = Some ''unknown'')
   \<and> ((\<exists>i<length table. 0 < snd (score_table table html url ! i)) \<longrightarrow>
         (\<exists>i<length table.
            platform (identify_platform_with table sel (Inr (html, url))) = Some (fst (table ! i))
            \<and> (\<forall>j<length table. snd (score_table table html url ! j)
                                     \<le> snd (score_table table html url ! i))
            \<and> (\<forall>j<i. snd (score_table table html url ! j)
                          < snd (score_table table html url ! i))))"
proof -
  let ?sc = "score_table table html url"
  have len: "length ?sc = length table"
    by (simp add: score_table_def)
  have plat: "platform (identify_platform_with table sel (Inr (html, url)))
                = Some (detect_platform ?sc)"
    by (simp add: identify_platform_with_def Let_def)
  have conf: "confidence_scores (identify_platform_with table sel (Inr (html, url))) = Some ?sc"
    by (simp add: identify_platform_with_def Let_def)
  have zero: "(\<forall>i<length table. snd (?sc ! i) = 0) \<longrightarrow> detect_platform ?sc = ''unknown''"
    using detect_platform_all_zero [of ?sc] len by simp
  have some: "(\<exists>i<length table. 0 < snd (?sc ! i)) \<longrightarrow>
         (\<exists>i<length table. detect_platform ?sc = fst (table ! i)
            \<and> (\<forall>j<length table. snd (?sc ! j) \<le> snd (?sc ! i))
            \<and> (\<forall>j<i. snd (?sc ! j) < snd (?sc ! i)))"
  proof
    assume "\<exists>i<length table. 0 < snd (?sc ! i)"
    then have "\<exists>i<length ?sc. 0 < snd (?sc ! i)" using len by simp
    from detect_platform_first_max [OF this] obtain i where i: "i < length ?sc"
      "detect_platform ?sc = fst (?sc ! i)"
      "\<forall>j<length ?sc. snd (?sc ! j) \<le> snd (?sc ! i)"
      "\<forall>j<i. snd (?sc ! j) < snd (?sc ! i)" by blast
    have "fst (?sc ! i) = fst (table ! i)"
      using i(1) len by (simp add: score_table_nth)
    with i len show "\<exists>i<length table. detect_platform ?sc = fst (table ! i)
            \<and> (\<forall>j<length table. snd (?sc ! j) \<le> snd (?sc ! i))
            \<and> (\<forall>j<i. snd (?sc ! j) < snd (?sc ! i))"
      by auto
  qed
  show ?thesis
    unfolding plat conf using zero some score_table_nth [of _ table html url]
    by simp
qed

lemma ascii_lower_simps:
  "ascii_lower (CHR ''a'') = CHR ''a''" "ascii_lower (CHR ''b'') = CHR ''b''"
  "ascii_lower (CHR ''c'') = CHR ''c''" "ascii_lower (CHR ''d'') = CHR ''d''"
  "ascii_lower (CHR ''e'') = CHR ''e''" "ascii_lower (CHR ''f'') = CHR ''f''"
  "ascii_lower (CHR ''g'') = CHR ''g''" "ascii_lower (CHR ''h'') = CHR ''h''"
  "ascii_lower (CHR ''i'') = CHR ''i''" "ascii_lower (CHR ''j'') = CHR ''j''"
  "ascii_lower (CHR ''k'') = CHR ''k''" "ascii_lower (CHR ''l'') = CHR ''l''"
  "ascii_lower (CHR ''m'') = CHR ''m''" "ascii_lower (CHR ''n'') = CHR ''n''"
  "ascii_lower (CHR ''o'') = CHR ''o''" "ascii_lower (CHR ''p'') = CHR ''p''"
  "ascii_lower (CHR ''q'') = CHR ''q''" "ascii_lower (CHR ''r'') = CHR ''r''"
  "ascii_lower (CHR ''s'') = CHR ''s''" "ascii_lower (CHR ''t'') = CHR ''t''"
  "ascii_lower (CHR ''u'') = CHR ''u''" "ascii_lower (CHR ''v'') = CHR ''v''"
  "ascii_lower (CHR ''w'') = CHR ''w''" "ascii_lower (CHR ''x'') = CHR ''x''"
  "ascii_lower (CHR ''y'') = CHR ''y''" "ascii_lower (CHR ''z'') = CHR ''z''"
  "ascii_lower (CHR ''A'') = CHR ''a''" "ascii_lower (CHR ''B'') = CHR ''b''"
  "ascii_lower (CHR ''C'') = CHR ''c''" "ascii_lower (CHR ''D'') = CHR ''d''"
  "ascii_lower (CHR ''E'') = CHR ''e''" "ascii_lower (CHR ''F'') = CHR ''f''"
  "ascii_lower (CHR ''G'') = CHR ''g''" "ascii_lower (CHR ''H'') = CHR ''h''"
  "ascii_lower (CHR ''I'') = CHR ''i''" "ascii_lower (CHR ''J'') = CHR ''j''"
  "ascii_lower (CHR ''K'') = CHR ''k''" "ascii_lower (CHR ''L'') = CHR ''l''"
  "ascii_lower (CHR ''M'') = CHR ''m''" "ascii_lower (CHR ''N'') = CHR ''n''"
  "ascii_lower (CHR ''O'') = CHR ''o''" "ascii_lower (CHR ''P'') = CHR ''p''"
  "ascii_lower (CHR ''Q'') = CHR ''q''" "ascii_lower (CHR ''R'') = CHR ''r''"
  "ascii_lower (CHR ''S'') = CHR ''s''" "ascii_lower (CHR ''T'') = CHR ''t''"
  "ascii_lower (CHR ''U'') = CHR ''u''" "ascii_lower (CHR ''V'') = CHR ''v''"
  "ascii_lower (CHR ''W'') = CHR ''w''" "ascii_lower (CHR ''X'') = CHR ''x''"
  "ascii_lower (CHR ''Y'') = CHR ''y''" "ascii_lower (CHR ''Z'') = CHR ''z''"
  "ascii_lower (CHR ''0'') = CHR ''0''" "ascii_lower (CHR ''1'') = CHR ''1''"
  "ascii_lower (CHR ''2'') = CHR ''2''" "ascii_lower (CHR ''3'') = CHR ''3''"
  "ascii_lower (CHR ''4'') = CHR ''4''" "ascii_lower (CHR ''5'') = CHR ''5''"
  "ascii_lower (CHR ''6'') = CHR ''6''" "ascii_lower (CHR ''7'') = CHR ''7''"
  "ascii_lower (CHR ''8'') = CHR ''8''" "ascii_lower (CHR ''9'') = CHR ''9''"
  "ascii_lower (CHR ''.'') = CHR ''.''" "ascii_lower (CHR ''/'') = CHR ''/''"
  "ascii_lower (CHR ''-'') = CHR ''-''" "ascii_lower (CHR ''_'') = CHR ''_''"
  "ascii_lower (CHR ''='') = CHR ''=''" "ascii_lower (CHR '':'') = CHR '':''"
  "ascii_lower (CHR '' '') = CHR '' ''" "ascii_lower (CHR ''<'') = CHR ''<''"
  "ascii_lower (CHR ''>'') = CHR ''>''"
  by (simp_all add: ascii_lower_def)

lemma wc_scores:
  "score_table platform_patterns ''wc-'' [] =
     [(''magento'', 0), (''woocommerce'', 1), (''shopify'', 0), (''opencart'', 0),
      (''prestashop'', 0), (''bigcommerce'', 0), (''skullcandy'', 0), (''custom_ecommerce'', 0)]"
  by (simp add: score_table_def platform_patterns_def pattern_score_def pattern_def
      ascii_lower_simps)

lemma empty_scores:
  "score_table platform_patterns [] [] =
     [(''magento'', 0), (''woocommerce'', 0), (''shopify'', 0), (''opencart'', 0),
      (''prestashop'', 0), (''bigcommerce'', 0), (''skullcandy'', 0), (''custom_ecommerce'', 0)]"
  by (simp add: score_table_def platform_patterns_def pattern_score_def pattern_def)

lemma platform_of_scores:
  "platform (identify_platform (Inr (html, url)))
     = Some (detect_platform (score_table platform_patterns html url))"
  by (simp add: identify_platform_def identify_platform_with_def Let_def)

text \<open>
  The witness runs the table of the source on a page whose HTML is \<open>wc-\<close> (one pattern of
  \<open>woocommerce\<close> matches, nothing else does) and on an empty page.
\<close>

theorem identify_platform_highest_score_witness:
  "0 < snd (score_table platform_patterns ''wc-'' [] ! 1)
   \<and> platform (identify_platform (Inr (''wc-'', []))) = Some ''woocommerce''
   \<and> platform (identify_platform (Inr ([], []))) = Some ''unknown''"
  using identify_platform_highest_score [of platform_patterns platform_selectors "''wc-''" "[]"]
    identify_platform_highest_score [of platform_patterns platform_selectors "[]" "[]"]
  by (simp add: platform_of_scores wc_scores empty_scores detect_platform_def)

subsection \<open>A Magento cart page\<close>

lemma starts_with_append: "starts_with s t \<Longrightarrow> \<exists>post. s = t @ post"
  by (induction s t rule: starts_with.induct) auto

lemma contains_decomp: "contains s t \<Longrightarrow> \<exists>pre post. s = pre @ t @ post"
proof (induction s)
  case Nil
  then show ?case by (cases t) auto
next
  case (Cons d s)
  show ?case
  proof (cases "starts_with (d # s) t")
    case True
    from starts_with_append [OF this] obtain post where "d # s = [] @ t @ post" by auto
    then show ?thesis by blast
  next
    case False
    with Cons.prems have "contains s t" by simp
    from Cons.IH [OF this] obtain pre post where "s = pre @ t @ post" by blast
    then have "d # s = (d # pre) @ t @ post" by simp
    then show ?thesis by blast
  qed
qed

lemma matches_here_append: "matches_here r s \<Longrightarrow> matches_here r (s @ post)"
  by (induction r s rule: matches_here.induct) auto

lemma re_search_here: "matches_here r s \<Longrightarrow> re_search_ignorecase r s"
  by (cases s) auto

lemma re_search_prepend: "re_search_ignorecase r s \<Longrightarrow> re_search_ignorecase r (pre @ s)"
  by (induction pre) auto

lemma re_search_inside:
  "matches_here r t \<Longrightarrow> re_search_ignorecase r (pre @ t @ post)"
  by (intro re_search_prepend re_search_here matches_here_append)

lemma mage_cookies_found:
  assumes "contains html ''Mage.Cookies''"
  shows "re_search_ignorecase (pattern ''Mage.Cookies'') html"
proof -
  from contains_decomp [OF assms] obtain pre post where
    html: "html = pre @ ''Mage.Cookies'' @ post" by blast
  have "matches_here (pattern ''Mage.Cookies'') ''Mage.Cookies''"
    by (simp add: pattern_def)
  then show ?thesis unfolding html by (rule re_search_inside)
qed

lemma checkout_cart_found:
  assumes "contains url ''checkout/cart''"
  shows "re_search_ignorecase (pattern ''checkout/cart'') url"
    and "re_search_ignorecase (pattern ''checkout'') url"
    and "re_search_ignorecase (pattern ''cart'') url"
proof -
  from contains_decomp [OF assms] obtain pre post where
    url: "url = pre @ ''checkout/cart'' @ post" by blast
  have "matches_here (pattern ''checkout/cart'') ''checkout/cart''"
    by (simp add: pattern_def)
  then show "re_search_ignorecase (pattern ''checkout/cart'') url"
    unfolding url by (rule re_search_inside)
  have "matches_here (pattern ''checkout'') ''checkout''"
    by (simp add: pattern_def)
  then have "re_search_ignorecase (pattern ''checkout'') (pre @ ''checkout'' @ (''/cart'' @ post))"
    by (rule re_search_inside)
  then show "re_search_ignorecase (pattern ''checkout'') url"
    unfolding url by simp
  have "matches_here (pattern ''cart'') ''cart''"
    by (simp add: pattern_def)
  then have "re_search_ignorecase (pattern ''cart'') ((pre @ ''checkout/'') @ ''cart'' @ post)"
    by (rule re_search_inside)
  then show "re_search_ignorecase (pattern ''cart'') url"
    unfolding url by simp
qed

lemma length_filter_sum:
  "length (filter P xs) = sum_list (map (\<lambda>x. if P x then 1 else 0) xs)"
  by (induction xs) auto

lemma magento_patterns:
  "map_of platform_patterns ''magento'' =
     Some [pattern ''Magento'', pattern ''mage/cookies'', pattern ''magento-version'',
           pattern ''Mage.Cookies'', pattern ''Magento_Ui'',
           pattern ''catalog/product/view'', pattern ''checkout/cart'',
           pattern ''requirejs-config'']"
  by (simp add: platform_patterns_def)

lemma custom_patterns:
  "map_of platform_patterns ''custom_ecommerce'' =
     Some [pattern ''add-to-cart'', pattern ''add_to_cart'', pattern ''cart'',
           pattern ''checkout'', pattern ''product'', pattern ''collection'',
           pattern ''category'']"
  by (simp add: platform_patterns_def)

lemma magento_score_ge2:
  assumes "contains html ''Mage.Cookies''" and "contains url ''checkout/cart''"
  shows "2 \<le> pattern_score (the (map_of platform_patterns ''magento'')) html url"
  unfolding magento_patterns pattern_score_def length_filter_sum
  using mage_cookies_found [OF assms(1)] checkout_cart_found(1) [OF assms(2)]
  by (simp split del: if_split)

lemma custom_score_ge2:
  assumes "contains url ''checkout/cart''"
  shows "2 \<le> pattern_score (the (map_of platform_patterns ''custom_ecommerce'')) html url"
  unfolding custom_patterns pattern_score_def length_filter_sum
  using checkout_cart_found(2,3) [OF assms]
  by (simp split del: if_split)

lemma first_with_score_mem: "first_with_score m l = Some n \<Longrightarrow> (n, m) \<in> set l"
  by (induction m l rule: first_with_score.induct) (auto split: if_splits)

lemma detect_head_iff:
  assumes dist: "distinct (map fst ((n0, s0) # rest))" and pos: "0 < s0"
  shows "detect_platform ((n0, s0) # rest) = n0 \<longleftrightarrow> (\<forall>x \<in> set (map snd rest). x \<le> s0)"
proof -
  define m where "m = max_from s0 (map snd rest)"
  have m_ge: "s0 \<le> m" unfolding m_def by (rule max_from_ge_init)
  with pos have m_pos: "0 < m" by simp
  have m_mem: "m \<in> set (s0 # map snd rest)" unfolding m_def by (rule max_from_mem)
  have det: "detect_platform ((n0, s0) # rest) =
      (case first_with_score m ((n0, s0) # rest) of Some d \<Rightarrow> d | None \<Rightarrow> ''unknown'')"
    using m_pos by (simp add: detect_platform_def m_def Let_def)
  show ?thesis
  proof
    assume all_le: "\<forall>x \<in> set (map snd rest). x \<le> s0"
    with m_mem have "m \<le> s0" by auto
    with m_ge have "m = s0" by simp
    then show "detect_platform ((n0, s0) # rest) = n0"
      unfolding det by simp
  next
    assume head: "detect_platform ((n0, s0) # rest) = n0"
    show "\<forall>x \<in> set (map snd rest). x \<le> s0"
    proof (cases "s0 = m")
      case True
      then show ?thesis
        unfolding m_def using max_from_ge_elem [of _ "map snd rest" s0] by auto
    next
      case False
      with m_mem have "m \<in> snd ` set rest" by auto
      from first_with_score_found [OF this] obtain i where i: "i < length rest"
        "first_with_score m rest = Some (fst (rest ! i))" by blast
      have "detect_platform ((n0, s0) # rest) = fst (rest ! i)"
        unfolding det using False i(2) by simp
      with head have "n0 = fst (rest ! i)" by simp
      then have "n0 \<in> fst ` set rest" using i(1) by (metis imageI nth_mem)
      with dist show ?thesis by simp
    qed
  qed
qed

lemma map_of_score_table:
  "map_of (score_table table html url) name
     = map_option (\<lambda>patterns. pattern_score patterns html url) (map_of table name)"
  by (induction table) (auto simp: score_table_def)

lemma score_of_identify:
  "score_of (identify_platform (Inr (html, url))) name =
     (case map_of platform_patterns name of
        None \<Rightarrow> 0
      | Some patterns \<Rightarrow> pattern_score patterns html url)"
  by (simp add: score_of_def identify_platform_def identify_platform_with_def Let_def
      map_of_score_table split: option.splits)

lemma score_table_distinct:
  "distinct (map fst (score_table platform_patterns html url))"
proof -
  have "map fst (score_table platform_patterns html url) = map fst platform_patterns"
    by (simp add: score_table_def case_prod_beta)
  then show ?thesis by (simp add: platform_patterns_def)
qed

lemma score_table_head:
  "\<exists>rest. score_table platform_patterns html url =
     (''magento'', pattern_score (the (map_of platform_patterns ''magento'')) html url) # rest"
  by (simp add: score_table_def platform_patterns_def)

text \<open>
  C3, as amended. On a page whose HTML contains \<open>Mage.Cookies\<close> and whose URL contains
  \<open>checkout/cart\<close>, \<open>magento\<close> scores at least 2, and so does the catch-all
  \<open>custom_ecommerce\<close>, whose patterns \<open>cart\<close> and \<open>checkout\<close> match the same URL. The tag is
  \<open>magento\<close> exactly when no platform scores more than \<open>magento\<close>, which is first in the
  table and wins a tie.
\<close>

theorem magento_cart_page_scores:
  assumes html: "contains html ''Mage.Cookies''" and url: "contains url ''checkout/cart''"
  shows "2 \<le> score_of (identify_platform (Inr (html, url))) ''magento''
       \<and> 2 \<le> score_of (identify_platform (Inr (html, url))) ''custom_ecommerce''
       \<and> (platform (identify_platform (Inr (html, url))) = Some ''magento'' \<longleftrightarrow>
            (\<forall>name. score_of (identify_platform (Inr (html, url))) name
                      \<le> score_of (identify_platform (Inr (html, url))) ''magento''))"
proof -
  let ?info = "identify_platform (Inr (html, url))"
  let ?sc = "score_table platform_patterns html url"
  define s0 where "s0 = pattern_score (the (map_of platform_patterns ''magento'')) html url"
  have magento: "score_of ?info ''magento'' = s0"
    by (simp add: score_of_identify magento_patterns s0_def)
  have s0_ge: "2 \<le> s0"
    unfolding s0_def by (rule magento_score_ge2 [OF html url])
  have custom: "2 \<le> score_of ?info ''custom_ecommerce''"
    using custom_score_ge2 [OF url, of html] by (simp add: score_of_identify custom_patterns)
  from score_table_head obtain rest where sc: "?sc = (''magento'', s0) # rest"
    unfolding s0_def by blast
  have dist: "distinct (map fst ((''magento'', s0) # rest))"
    using score_table_distinct [of html url] unfolding sc .
  have score_of_map: "score_of ?info name =
      (case map_of ((''magento'', s0) # rest) name of None \<Rightarrow> 0 | Some n \<Rightarrow> n)" for name
    by (simp add: score_of_def identify_platform_def identify_platform_with_def Let_def sc)
  have "platform ?info = Some ''magento'' \<longleftrightarrow> detect_platform ((''magento'', s0) # rest) = ''magento''"
    by (simp add: platform_of_scores sc)
  also have "\<dots> \<longleftrightarrow> (\<forall>x \<in> set (map snd rest). x \<le> s0)"
    using s0_ge by (intro detect_head_iff [OF dist]) simp
  also have "\<dots> \<longleftrightarrow> (\<forall>name. score_of ?info name \<le> score_of ?info ''magento'')"
  proof
    assume le: "\<forall>x \<in> set (map snd rest). x \<le> s0"
    show "\<forall>name. score_of ?info name \<le> score_of ?info ''magento''"
    proof
      fix name
      show "score_of ?info name \<le> score_of ?info ''magento''"
      proof (cases "map_of ((''magento'', s0) # rest) name")
        case None
        then show ?thesis by (simp add: score_of_map)
      next
        case (Some n)
        then have "(name, n) \<in> set ((''magento'', s0) # rest)" by (rule map_of_SomeD)
        then have "n \<le> s0" using le by force
        then show ?thesis using Some magento by (simp add: score_of_map [of name])
      qed
    qed
  next
    assume all: "\<forall>name. score_of ?info name \<le> score_of ?info ''magento''"
    show "\<forall>x \<in> set (map snd rest). x \<le> s0"
    proof
      fix x assume "x \<in> set (map snd rest)"
      then obtain name where mem: "(name, x) \<in> set rest" by auto
      then have "(name, x) \<in> set ((''magento'', s0) # rest)" by simp
      from map_of_is_SomeI [OF _ this] dist
      have "map_of ((''magento'', s0) # rest) name = Some x" by simp
      then have "score_of ?info name = x" by (simp add: score_of_map [of name])
      with all magento show "x \<le> s0" by metis
    qed
  qed
  finally have iff: "platform ?info = Some ''magento'' \<longleftrightarrow>
      (\<forall>name. score_of ?info name \<le> score_of ?info ''magento'')" .
  from s0_ge magento custom iff show ?thesis by simp
qed

lemma tie_page_scores:
  "score_table platform_patterns ''Mage.Cookies'' ''http://a.io/checkout/cart'' =
     [(''magento'', 2), (''woocommerce'', 0), (''shopify'', 0), (''opencart'', 0),
      (''prestashop'', 0), (''bigcommerce'', 0), (''skullcandy'', 0), (''custom_ecommerce'', 2)]"
  by (simp add: score_table_def platform_patterns_def pattern_score_def pattern_def
      ascii_lower_simps)

lemma product_page_scores:
  "score_table platform_patterns ''Mage.Cookies product'' ''http://a.io/checkout/cart'' =
     [(''magento'', 2), (''woocommerce'', 0), (''shopify'', 0), (''opencart'', 0),
      (''prestashop'', 0), (''bigcommerce'', 0), (''skullcandy'', 0), (''custom_ecommerce'', 3)]"
  by (simp add: score_table_def platform_patterns_def pattern_score_def pattern_def
      ascii_lower_simps)

lemma score_of_table:
  "score_of (identify_platform (Inr (html, url))) name =
     (case map_of (score_table platform_patterns html url) name of None \<Rightarrow> 0 | Some n \<Rightarrow> n)"
  by (simp add: score_of_def identify_platform_def identify_platform_with_def Let_def)

text \<open>The witness: the two tokens alone give a tie of 2 to 2, and the tag \<open>magento\<close>.\<close>

theorem magento_cart_page_scores_witness:
  "contains ''Mage.Cookies'' ''Mage.Cookies''
   \<and> contains ''http://a.io/checkout/cart'' ''checkout/cart''
   \<and> score_of (identify_platform (Inr (''Mage.Cookies'', ''http://a.io/checkout/cart'')))
         ''magento'' = 2
   \<and> score_of (identify_platform (Inr (''Mage.Cookies'', ''http://a.io/checkout/cart'')))
         ''custom_ecommerce'' = 2
   \<and> platform (identify_platform (Inr (''Mage.Cookies'', ''http://a.io/checkout/cart'')))
         = Some ''magento''"
  using magento_cart_page_scores [of "''Mage.Cookies''" "''http://a.io/checkout/cart''"]
  by (simp add: score_of_table platform_of_scores tie_page_scores detect_platform_def)

text \<open>
  C3 as stated fails: with the word \<open>product\<close> in the HTML the catch-all scores 3 against
  2 for \<open>magento\<close>, and the tag is \<open>custom_ecommerce\<close>.
\<close>

theorem magento_strictly_greatest_counterexample:
  "contains ''Mage.Cookies product'' ''Mage.Cookies''
   \<and> contains ''http://a.io/checkout/cart'' ''checkout/cart''
   \<and> platform (identify_platform (Inr (''Mage.Cookies product'', ''http://a.io/checkout/cart'')))
         = Some ''custom_ecommerce''
   \<and> score_of (identify_platform (Inr (''Mage.Cookies product'', ''http://a.io/checkout/cart'')))
         ''magento'' = 2
   \<and> score_of (identify_platform (Inr (''Mage.Cookies product'', ''http://a.io/checkout/cart'')))
         ''custom_ecommerce'' = 3"
  by (simp add: score_of_table platform_of_scores product_page_scores detect_platform_def)

section \<open>Properties of \<open>navigate\<close>\<close>

lemma bot_stage_success:
  assumes "bot_stage e m = Inr (True, m')"
  shows "\<exists>bc. bot_check_result e = Some bc
           \<and> \<not> hasCaptcha bc \<and> \<not> hasAccessDenied bc \<and> \<not> hasCloudflare bc \<and> \<not> hasBotDetection bc
           \<and> m' = m\<lparr>success := True\<rparr>"
proof (cases "bot_check_result e")
  case None
  with assms show ?thesis by (simp add: bot_stage_def)
next
  case (Some bc)
  with assms show ?thesis
    by (simp add: bot_stage_def Let_def split: if_splits)
qed

lemma content_stage_success:
  assumes "content_stage e m = Inr (True, m')"
  shows "\<exists>cc. content_check_result e = Some cc \<and> bodyExists cc \<and> 100 \<le> contentLength cc
           \<and> bot_stage e (m\<lparr>content_checks := content_checks m @ [Some cc]\<rparr>) = Inr (True, m')"
proof (cases "content_check_result e")
  case None
  with assms show ?thesis by (simp add: content_stage_def)
next
  case (Some cc)
  with assms show ?thesis
    by (simp add: content_stage_def Let_def add_error_def split: if_splits)
qed

lemma attempt_body_raises:
  "attempt_body st e m = Inl (''name 'random' is not defined'', m)"
  by (simp add: attempt_body_def random_lookup_def and_then_def)

lemma attempt_raises:
  "attempt i st e m =
     (False, m\<lparr>attempts := attempts m + 1,
               errors := errors m @ [''Navigation attempt '' @ str_nat (i + 1)
                                      @ '' failed: name 'random' is not defined'']\<rparr>)"
  by (simp add: attempt_def attempt_body_raises add_error_def)

lemma str_nat_digits:
  "str_nat (Suc 0) = ''1''" "str_nat (Suc (Suc 0)) = ''2''"
  "str_nat (Suc (Suc (Suc 0))) = ''3''" "str_nat (Suc (Suc (Suc (Suc 0)))) = ''4''"
  "str_nat (Suc (Suc (Suc (Suc (Suc 0))))) = ''5''"
  by (simp_all add: str_nat.simps digit_char_def)

lemma navigate_started:
  "navigate True wait timeout_ms env =
     (False, Some \<lparr>attempts = 5, success = False,
                   errors = [''Navigation attempt 1 failed: name 'random' is not defined'',
                             ''Navigation attempt 2 failed: name 'random' is not defined'',
                             ''Navigation attempt 3 failed: name 'random' is not defined'',
                             ''Navigation attempt 4 failed: name 'random' is not defined'',
                             ''Navigation attempt 5 failed: name 'random' is not defined''],
                   response_status = None, content_checks = []\<rparr>)"
  by (simp add: navigate_def strategies_def attempt_raises str_nat_digits)



section \<open>Properties of \<open>validate_coupon\<close> and \<open>close\<close>\<close>

lemma navigate_result_false: "fst (navigate page_started wait timeout_ms env) = False"
  by (cases page_started) (simp_all add: navigate_started, simp add: navigate_def)

lemma navigation_loop_fails:
  "navigation_loop page_started timeout_ms env k waits =
     (False, map (\<lambda>w. ''Navigation failed with strategy: '' @ w) waits,
      replicate (length waits) Navigate)"
  by (induction waits arbitrary: k) (simp_all add: navigate_result_false)

lemma holds_set_none: "holds (set_none r s) r' \<longleftrightarrow> holds s r' \<and> r' \<noteq> r"
  by (cases r; cases r') simp_all

lemma close_seq_shrinks:
  "holds (fst (close_seq raises rs s)) r \<Longrightarrow> holds s r"
proof (induction rs arbitrary: s)
  case Nil
  then show ?case by simp
next
  case (Cons a rs)
  show ?case
  proof (cases "holds s a")
    case False
    with Cons show ?thesis by simp
  next
    case True
    show ?thesis
    proof (cases "raises a")
      case True
      with \<open>holds s a\<close> Cons.prems show ?thesis by simp
    next
      case False
      with \<open>holds s a\<close> Cons.prems
      have "holds (fst (close_seq raises rs (set_none a s))) r"
        by (simp add: case_prod_beta)
      from Cons.IH [OF this] show ?thesis by (simp add: holds_set_none)
    qed
  qed
qed

lemma close_seq_again:
  "close_seq raises rs (fst (close_seq raises rs s)) = (fst (close_seq raises rs s), [])"
proof (induction rs arbitrary: s)
  case Nil
  then show ?case by simp
next
  case (Cons a rs)
  show ?case
  proof (cases "holds s a")
    case False
    then have first: "close_seq raises (a # rs) s = close_seq raises rs s" by simp
    have "\<not> holds (fst (close_seq raises rs s)) a"
      using False close_seq_shrinks by blast
    then show ?thesis
      unfolding first using Cons.IH [of s] by simp
  next
    case True
    show ?thesis
    proof (cases "raises a")
      case True
      with \<open>holds s a\<close> show ?thesis by simp
    next
      case False
      let ?s1 = "set_none a s"
      have first: "fst (close_seq raises (a # rs) s) = fst (close_seq raises rs ?s1)"
        using True False by (simp add: case_prod_beta)
      have "\<not> holds ?s1 a" by (simp add: holds_set_none)
      then have "\<not> holds (fst (close_seq raises rs ?s1)) a"
        using close_seq_shrinks by blast
      then show ?thesis
        unfolding first using Cons.IH [of ?s1] by simp
    qed
  qed
qed

lemma close_seq_released_distinct:
  "distinct rs \<Longrightarrow> distinct (snd (close_seq raises rs s))
     \<and> set (snd (close_seq raises rs s)) \<subseteq> {r \<in> set rs. holds s r}"
proof (induction rs arbitrary: s)
  case Nil
  then show ?case by simp
next
  case (Cons a rs)
  then have d: "distinct rs" and a: "a \<notin> set rs" by simp_all
  show ?case
  proof (cases "holds s a \<and> \<not> raises a")
    case True
    from Cons.IH [OF d, of "set_none a s"] have
      ih: "distinct (snd (close_seq raises rs (set_none a s)))"
      "set (snd (close_seq raises rs (set_none a s))) \<subseteq> {r \<in> set rs. holds (set_none a s) r}"
      by simp_all
    from ih(2) a have "a \<notin> set (snd (close_seq raises rs (set_none a s)))" by auto
    with ih True show ?thesis
      by (auto simp: case_prod_beta holds_set_none)
  next
    case False
    with Cons.IH [OF d, of s] show ?thesis by auto
  qed
qed

lemma close_seq_all:
  assumes "\<forall>r. \<not> raises r" and "distinct rs"
  shows "snd (close_seq raises rs s) = filter (holds s) rs
         \<and> (\<forall>r. holds (fst (close_seq raises rs s)) r \<longleftrightarrow> holds s r \<and> r \<notin> set rs)"
  using assms(2)
proof (induction rs arbitrary: s)
  case Nil
  then show ?case by simp
next
  case (Cons a rs)
  then have d: "distinct rs" and a: "a \<notin> set rs" by simp_all
  show ?case
  proof (cases "holds s a")
    case False
    with Cons.IH [OF d, of s] show ?thesis by auto
  next
    case True
    from Cons.IH [OF d, of "set_none a s"] have
      ih: "snd (close_seq raises rs (set_none a s)) = filter (holds (set_none a s)) rs"
      "\<forall>r. holds (fst (close_seq raises rs (set_none a s))) r
           \<longleftrightarrow> holds (set_none a s) r \<and> r \<notin> set rs" by simp_all
    have f: "filter (holds (set_none a s)) rs = filter (holds s) rs"
      using a by (intro filter_cong) (auto simp: holds_set_none)
    have not_raises: "\<not> raises a" using assms(1) by simp
    have "snd (close_seq raises (a # rs) s) = filter (holds s) (a # rs)"
      using True not_raises ih(1) f by (simp add: case_prod_beta)
    moreover have "\<forall>r. holds (fst (close_seq raises (a # rs) s)) r
                      \<longleftrightarrow> holds s r \<and> r \<notin> set (a # rs)"
      using True not_raises ih(2) by (auto simp: case_prod_beta holds_set_none)
    ultimately show ?thesis by simp
  qed
qed

lemma nothing_held: "(\<forall>r. \<not> holds s r) \<Longrightarrow> s = new_engine"
proof -
  assume h: "\<forall>r. \<not> holds s r"
  from h [rule_format, of Page] h [rule_format, of Context] h [rule_format, of Browser]
    h [rule_format, of Playwright]
  show ?thesis by (cases s) (simp add: new_engine_def)
qed

lemma all_resources: "r \<in> set [Page, Context, Browser, Playwright]"
  by (cases r) simp_all

lemma close_releases_all:
  assumes "\<forall>r. \<not> raises r"
  shows "close raises s = (new_engine, filter (holds s) [Page, Context, Browser, Playwright])"
proof -
  have d: "distinct [Page, Context, Browser, Playwright]" by simp
  from close_seq_all [OF assms d, of s] have
    released: "snd (close raises s) = filter (holds s) [Page, Context, Browser, Playwright]"
    and held: "\<forall>r. holds (fst (close raises s)) r
                 \<longleftrightarrow> holds s r \<and> r \<notin> set [Page, Context, Browser, Playwright]"
    unfolding close_def by simp_all
  from held have "\<forall>r. \<not> holds (fst (close raises s)) r"
    using all_resources by blast
  then have "fst (close raises s) = new_engine" by (rule nothing_held)
  with released show ?thesis by (simp add: prod_eq_iff)
qed

lemma close_again:
  "close raises (fst (close raises s)) = (fst (close raises s), [])"
  unfolding close_def by (rule close_seq_again)

lemma close_released_once: "distinct (snd (close raises s))"
  unfolding close_def using close_seq_released_distinct [of "[Page, Context, Browser, Playwright]"]
  by simp

text \<open>The events of a run, and the engine it leaves.\<close>

lemma validate_coupon_events:
  "fst (snd (validate_coupon env coupon_code website_url timeout_ms)) =
     (case validate_inputs (urlparse env) coupon_code website_url of
        Inl e \<Rightarrow> []
      | Inr checked \<Rightarrow>
          if setup_raises env = None \<and> reporter_raises env = None
          then [ConstructBrowserEngine, StartBrowser, Navigate, Navigate, Navigate, CloseBrowser]
          else [ConstructBrowserEngine, CloseBrowser])"
  by (simp add: validate_coupon_def finally_close_def navigation_loop_fails Let_def
      split: sum.splits option.splits)

lemma validate_coupon_engine:
  "snd (snd (validate_coupon env coupon_code website_url timeout_ms)) =
     (case validate_inputs (urlparse env) coupon_code website_url of
        Inl e \<Rightarrow> None
      | Inr checked \<Rightarrow>
          if setup_raises env = None \<and> reporter_raises env = None
          then Some (fst (close (release_raises env) (start (acquired env))))
          else Some (fst (close (release_raises env) new_engine)))"
  by (simp add: validate_coupon_def finally_close_def navigation_loop_fails Let_def
      split: sum.splits option.splits)

text \<open>
  C5. The claim fails on the code. For an empty coupon code, and for a URL without scheme
  and host, \<open>validate_inputs\<close> returns \<open>False\<close>; \<open>validate_coupon\<close> does not read the
  value, constructs the engine, starts the browser and calls \<open>navigate\<close> three times before
  it returns its failure result.
\<close>

theorem invalid_input_still_starts_browser:
  "validate_inputs parse_known [] ''https://example.com'' = Inr False
   \<and> fst (snd (validate_coupon quiet_env [] ''https://example.com'' 60000))
       = [ConstructBrowserEngine, StartBrowser, Navigate, Navigate, Navigate, CloseBrowser]
   \<and> validate_inputs parse_known ''SAVE10'' ''example.com'' = Inr False
   \<and> fst (snd (validate_coupon quiet_env ''SAVE10'' ''example.com'' 60000))
       = [ConstructBrowserEngine, StartBrowser, Navigate, Navigate, Navigate, CloseBrowser]"
  by (simp add: validate_coupon_events validate_inputs_def quiet_env_def parse_known_def)

text \<open>
  C8, as amended. On every exit path of \<open>validate_coupon\<close> on which the engine was
  constructed, \<open>close\<close> is called exactly once, and it is the last thing done to the
  browser; the one path without an engine is an exception of \<open>validate_inputs\<close>, where
  \<open>close\<close> is not called. \<open>close\<close> releases each resource it holds at most once. When no
  release call raises, it releases all of them, page, context, browser and driver, and
  the run leaves nothing held. A second \<open>close\<close> releases nothing and changes nothing. When a
  release call raises, \<open>close\<close> returns there: that resource and those after it stay held.
\<close>

theorem close_once_on_every_exit_path:
  "count_list (fst (snd (validate_coupon env coupon_code website_url timeout_ms))) CloseBrowser
     = (case validate_inputs (urlparse env) coupon_code website_url of
          Inl e \<Rightarrow> 0 | Inr checked \<Rightarrow> 1)
   \<and> (fst (snd (validate_coupon env coupon_code website_url timeout_ms)) \<noteq> [] \<longrightarrow>
        last (fst (snd (validate_coupon env coupon_code website_url timeout_ms))) = CloseBrowser)
   \<and> distinct (snd (close raises s))
   \<and> ((\<forall>r. \<not> raises r) \<longrightarrow>
        close raises s = (new_engine, filter (holds s) [Page, Context, Browser, Playwright]))
   \<and> close raises (fst (close raises s)) = (fst (close raises s), [])
   \<and> ((\<forall>r. \<not> release_raises env r) \<longrightarrow>
        snd (snd (validate_coupon env coupon_code website_url timeout_ms))
          = (case validate_inputs (urlparse env) coupon_code website_url of
               Inl e \<Rightarrow> None | Inr checked \<Rightarrow> Some new_engine))"
proof -
  have count: "count_list (fst (snd (validate_coupon env coupon_code website_url timeout_ms)))
      CloseBrowser
     = (case validate_inputs (urlparse env) coupon_code website_url of
          Inl e \<Rightarrow> 0 | Inr checked \<Rightarrow> 1)"
    unfolding validate_coupon_events by (simp split: sum.splits)
  have last_close: "fst (snd (validate_coupon env coupon_code website_url timeout_ms)) \<noteq> [] \<longrightarrow>
        last (fst (snd (validate_coupon env coupon_code website_url timeout_ms))) = CloseBrowser"
    unfolding validate_coupon_events by (simp split: sum.splits)
  have all_released: "(\<forall>r. \<not> release_raises env r) \<longrightarrow>
        snd (snd (validate_coupon env coupon_code website_url timeout_ms))
          = (case validate_inputs (urlparse env) coupon_code website_url of
               Inl e \<Rightarrow> None | Inr checked \<Rightarrow> Some new_engine)"
    unfolding validate_coupon_engine
    by (simp add: close_releases_all split: sum.splits)
  from count last_close all_released close_released_once [of raises s]
    close_releases_all [of raises s] close_again [of raises s]
  show ?thesis by blast
qed

text \<open>The witness: a valid input in the quiet environment, where \<open>start\<close> acquired everything.\<close>

theorem close_once_on_every_exit_path_witness:
  "validate_inputs parse_known ''SAVE10'' ''https://example.com'' = Inr True
   \<and> count_list (fst (snd (validate_coupon quiet_env ''SAVE10'' ''https://example.com'' 60000)))
       CloseBrowser = 1
   \<and> last (fst (snd (validate_coupon quiet_env ''SAVE10'' ''https://example.com'' 60000)))
       = CloseBrowser
   \<and> close no_release_raises (start 4) = (new_engine, [Page, Context, Browser, Playwright])
   \<and> close no_release_raises new_engine = (new_engine, [])
   \<and> snd (snd (validate_coupon quiet_env ''SAVE10'' ''https://example.com'' 60000))
       = Some new_engine"
proof -
  note once = close_once_on_every_exit_path
    [of quiet_env "''SAVE10''" "''https://example.com''" 60000 no_release_raises "start 4"]
  note once_new = close_once_on_every_exit_path
    [of quiet_env "''SAVE10''" "''https://example.com''" 60000 no_release_raises new_engine]
  have v: "validate_inputs parse_known ''SAVE10'' ''https://example.com'' = Inr True"
    by (simp add: validate_inputs_def parse_known_def)
  have v_env: "validate_inputs (urlparse quiet_env) ''SAVE10'' ''https://example.com'' = Inr True"
    using v by (simp add: quiet_env_def)
  have nr: "\<forall>r. \<not> no_release_raises r"
    by (simp add: no_release_raises_def)
  have nr_env: "\<forall>r. \<not> release_raises quiet_env r"
    by (simp add: quiet_env_def no_release_raises_def)
  have ev: "fst (snd (validate_coupon quiet_env ''SAVE10'' ''https://example.com'' 60000))
      = [ConstructBrowserEngine, StartBrowser, Navigate, Navigate, Navigate, CloseBrowser]"
    unfolding validate_coupon_events v_env by (simp add: quiet_env_def)
  have a: "count_list (fst (snd (validate_coupon quiet_env ''SAVE10'' ''https://example.com''
             60000))) CloseBrowser = 1"
    using once v_env by simp
  have b: "last (fst (snd (validate_coupon quiet_env ''SAVE10'' ''https://example.com'' 60000)))
       = CloseBrowser"
    unfolding ev by simp
  have "close no_release_raises (start 4)
          = (new_engine, filter (holds (start 4)) [Page, Context, Browser, Playwright])"
    using once nr by blast
  then have c: "close no_release_raises (start 4)
          = (new_engine, [Page, Context, Browser, Playwright])"
    by (simp add: start_def)
  have "close no_release_raises new_engine
          = (new_engine, filter (holds new_engine) [Page, Context, Browser, Playwright])"
    using once_new nr by blast
  then have d: "close no_release_raises new_engine = (new_engine, [])"
    by (simp add: new_engine_def)
  have e: "snd (snd (validate_coupon quiet_env ''SAVE10'' ''https://example.com'' 60000))
       = Some new_engine"
    using once nr_env v_env by simp
  show ?thesis
    by (intro conjI) (rule v a b c d e)+
qed

text \<open>
  C8 as stated fails when a release call raises: with a page whose \<open>close\<close> raises, the run
  ends with the page, the context, the browser and the driver all still held, and
  \<open>close\<close> has released nothing.
\<close>

theorem page_close_raises_counterexample:
  "validate_inputs parse_known ''SAVE10'' ''https://example.com'' = Inr True
   \<and> close page_close_raises (start 4) = (start 4, [])
   \<and> snd (snd (validate_coupon page_close_raises_env ''SAVE10'' ''https://example.com'' 60000))
       = Some \<lparr>page_open = True, context_open = True, browser_open = True,
               playwright_running = True\<rparr>"
  by (simp add: validate_coupon_engine validate_inputs_def parse_known_def
      page_close_raises_env_def quiet_env_def close_def page_close_raises_def start_def)

section \<open>Properties of the suggested selectors\<close>

lemma table_ladders_nonempty:
  "\<forall>(name, roles) \<in> set platform_selectors. \<forall>(role, l) \<in> set roles. l \<noteq> []"
  by (simp add: platform_selectors_def)

lemma identify_ladders_nonempty:
  assumes "selectors (identify_platform page) role = Some l"
  shows "l \<noteq> []"
proof (cases page)
  case (Inl e)
  with assms show ?thesis
    by (simp add: identify_platform_def identify_platform_with_def)
next
  case (Inr p)
  obtain html url where p: "p = (html, url)" by (cases p)
  let ?d = "detect_platform (score_table platform_patterns html url)"
  from assms Inr p obtain roles where
    roles: "map_of platform_selectors ?d = Some roles" and l: "map_of roles role = Some l"
    by (auto simp: identify_platform_def identify_platform_with_def Let_def
        split: option.splits)
  from roles have "(?d, roles) \<in> set platform_selectors" by (rule map_of_SomeD)
  moreover from l have "(role, l) \<in> set roles" by (rule map_of_SomeD)
  ultimately show ?thesis using table_ladders_nonempty by fastforce
qed

lemma merge_role_keeps:
  assumes "\<forall>role l. selectors info role = Some l \<longrightarrow> l \<noteq> []"
  shows "merge_role gs element_type info = info"
  using assms by (auto simp: merge_role_def split: option.splits)

lemma fold_merge_role_keeps:
  assumes "\<forall>role l. selectors info role = Some l \<longrightarrow> l \<noteq> []"
  shows "fold (merge_role gs) detected info = info"
  using assms by (induction detected) (simp_all add: merge_role_keeps)

lemma merge_role_nonempty_ladder:
  assumes "selectors info role = Some l" and "l \<noteq> []"
  shows "selectors (merge_role gs element_type info) role = Some l"
  using assms by (auto simp: merge_role_def Let_def split: option.splits)

lemma fold_merge_role_nonempty_ladder:
  assumes "selectors info role = Some l" and "l \<noteq> []"
  shows "selectors (fold (merge_role gs) detected info) role = Some l"
  using assms
  by (induction detected arbitrary: info) (simp_all add: merge_role_nonempty_ladder)

lemma scores_not_read:
  "known_platform (info\<lparr>ai_confidence_scores := sc\<rparr>) = known_platform info"
  "ladder (info\<lparr>ai_confidence_scores := sc\<rparr>) role = ladder info role"
  by (simp_all add: known_platform_def ladder_def)

lemma enhance_identified:
  "enhance_with_ai gs detected scores (identify_platform page) =
     (if detected \<noteq> [] then (identify_platform page)\<lparr>ai_confidence_scores := Some scores\<rparr>
      else identify_platform page)"
proof -
  have "\<forall>role l. selectors (identify_platform page) role = Some l \<longrightarrow> l \<noteq> []"
    using identify_ladders_nonempty by blast
  then have "fold (merge_role gs) detected (identify_platform page) = identify_platform page"
    by (rule fold_merge_role_keeps)
  then show ?thesis by (simp add: enhance_with_ai_def)
qed

lemma extract_ignores_ladders:
  assumes "\<not> ai_confident info ''discount_amount''"
  shows "extract_discount_amount re_search be info w
           = extract_discount_amount re_search be (info\<lparr>selectors := Map.empty\<rparr>) w"
proof -
  have "ai_confident (info\<lparr>selectors := Map.empty\<rparr>) ''discount_amount''
          = ai_confident info ''discount_amount''"
    by (simp add: ai_confident_def)
  with assms show ?thesis
    by (simp add: extract_discount_amount_def)
qed

text \<open>
  C4, as amended. Suggested selectors enter a ladder only in the merge step of
  \<open>validate_coupon\<close>, and only where the descriptor holds the role with an empty ladder,
  whatever the confidence: a ladder that is not empty is left as it is. No ladder of a
  descriptor that \<open>identify_platform\<close> returns is empty, so the merge changes none of them.
  \<open>apply_coupon\<close> picks the coupon field and the apply button from the platform ladder and
  then from the generic selectors, and the confidence scores have no part in the choice.
  In \<open>_extract_discount_amount\<close> a confidence of 0.8 or below makes the search ignore the
  ladders of the descriptor.
\<close>

theorem ai_selectors_fill_empty_ladders_only:
  "selectors (enhance_with_ai gs detected scores (identify_platform page))
     = selectors (identify_platform page)
   \<and> (selectors info role = Some l \<and> l \<noteq> [] \<longrightarrow>
        selectors (enhance_with_ai gs detected scores info) role = Some l)
   \<and> fill_coupon_field be act (info\<lparr>ai_confidence_scores := sc\<rparr>) coupon_code w
       = fill_coupon_field be act info coupon_code w
   \<and> click_apply_button be act (info\<lparr>ai_confidence_scores := sc\<rparr>) w
       = click_apply_button be act info w
   \<and> (\<not> ai_confident info ''discount_amount'' \<longrightarrow>
        extract_discount_amount re_search be info w
          = extract_discount_amount re_search be (info\<lparr>selectors := Map.empty\<rparr>) w)"
proof -
  have a: "selectors (enhance_with_ai gs detected scores (identify_platform page))
     = selectors (identify_platform page)"
    by (simp add: enhance_identified)
  have b: "selectors info role = Some l \<and> l \<noteq> [] \<longrightarrow>
        selectors (enhance_with_ai gs detected scores info) role = Some l"
    by (simp add: enhance_with_ai_def fold_merge_role_nonempty_ladder)
  have c: "fill_coupon_field be act (info\<lparr>ai_confidence_scores := sc\<rparr>) coupon_code w
       = fill_coupon_field be act info coupon_code w"
    by (simp add: fill_coupon_field_def platform_ladder_def scores_not_read)
  have d: "click_apply_button be act (info\<lparr>ai_confidence_scores := sc\<rparr>) w
       = click_apply_button be act info w"
    by (simp add: click_apply_button_def platform_ladder_def scores_not_read)
  have e: "\<not> ai_confident info ''discount_amount'' \<longrightarrow>
        extract_discount_amount re_search be info w
          = extract_discount_amount re_search be (info\<lparr>selectors := Map.empty\<rparr>) w"
  proof
    assume "\<not> ai_confident info ''discount_amount''"
    then show "extract_discount_amount re_search be info w
          = extract_discount_amount re_search be (info\<lparr>selectors := Map.empty\<rparr>) w"
      by (rule extract_ignores_ladders)
  qed
  from a b c d e show ?thesis by blast
qed

lemma magento_scores:
  "score_table platform_patterns ''Magento'' [] =
     [(''magento'', 1), (''woocommerce'', 0), (''shopify'', 0), (''opencart'', 0),
      (''prestashop'', 0), (''bigcommerce'', 0), (''skullcandy'', 0), (''custom_ecommerce'', 0)]"
  by (simp add: score_table_def platform_patterns_def pattern_score_def pattern_def
      ascii_lower_simps)

lemma magento_info_fields:
  "platform magento_info = Some ''magento''"
  "selectors magento_info ''coupon_field''
     = Some [''#coupon_code'', ''#discount-code'', ''#discount-coupon-form #coupon_code'']"
  "ai_confidence_scores magento_info = None"
  by (simp_all add: magento_info_def identify_platform_def identify_platform_with_def
      magento_scores detect_platform_def platform_selectors_def Let_def)

lemma enhanced_info_eq:
  "enhanced_info = magento_info\<lparr>ai_confidence_scores := Some suggested_scores\<rparr>"
  unfolding enhanced_info_def magento_info_def by (simp add: enhance_identified)

lemma enhanced_confident: "ai_confident enhanced_info ''coupon_field''"
  by (simp add: enhanced_info_eq ai_confident_def suggested_scores_def
      ai_confidence_threshold_def)

lemma enhanced_ladder:
  "platform_ladder enhanced_info ''coupon_field''
     = [''#coupon_code'', ''#discount-code'', ''#discount-coupon-form #coupon_code'']"
  by (simp add: enhanced_info_eq platform_ladder_def known_platform_def ladder_def
      magento_info_fields)

lemma enhanced_fill:
  "fill_coupon_field (page_browser [''#promo-input'' \<mapsto> ''a'', ''#coupon_code'' \<mapsto> ''b''])
     no_actions enhanced_info ''SAVE10'' () = (BySelector ''#coupon_code'', ())"
  by (simp add: fill_coupon_field_def enhanced_ladder page_browser_def no_actions_def)

text \<open>
  The witness: a Magento page and an analysis that suggests \<open>#promo-input\<close> for the coupon
  field with confidence 0.95. The merge leaves the ladders as they were, and the search
  for the field is the same with and without the scores.
\<close>

theorem ai_selectors_fill_empty_ladders_only_witness:
  "selectors enhanced_info = selectors magento_info
   \<and> selectors magento_info ''coupon_field''
       = Some [''#coupon_code'', ''#discount-code'', ''#discount-coupon-form #coupon_code'']
   \<and> selectors enhanced_info ''coupon_field''
       = Some [''#coupon_code'', ''#discount-code'', ''#discount-coupon-form #coupon_code'']
   \<and> fill_coupon_field (page_browser [''#promo-input'' \<mapsto> ''a'', ''#coupon_code'' \<mapsto> ''b''])
         no_actions enhanced_info ''SAVE10'' ()
       = fill_coupon_field (page_browser [''#promo-input'' \<mapsto> ''a'', ''#coupon_code'' \<mapsto> ''b''])
           no_actions magento_info ''SAVE10'' ()
   \<and> click_apply_button (page_browser [''#promo-input'' \<mapsto> ''a'', ''#coupon_code'' \<mapsto> ''b''])
         no_actions enhanced_info ()
       = click_apply_button (page_browser [''#promo-input'' \<mapsto> ''a'', ''#coupon_code'' \<mapsto> ''b''])
           no_actions magento_info ()
   \<and> \<not> ai_confident magento_info ''discount_amount''
   \<and> extract_discount_amount amount_search
         (page_browser [''#promo-input'' \<mapsto> ''a'', ''#coupon_code'' \<mapsto> ''b'']) magento_info ()
       = extract_discount_amount amount_search
           (page_browser [''#promo-input'' \<mapsto> ''a'', ''#coupon_code'' \<mapsto> ''b''])
           (magento_info\<lparr>selectors := Map.empty\<rparr>) ()"
proof -
  let ?pb = "page_browser [''#promo-input'' \<mapsto> ''a'', ''#coupon_code'' \<mapsto> ''b'']"
  let ?l = "[''#coupon_code'', ''#discount-code'', ''#discount-coupon-form #coupon_code'']"
  note t = ai_selectors_fill_empty_ladders_only
    [where gs = suggested and detected = "[''coupon_field'']" and scores = suggested_scores
       and page = "Inr (''Magento'', [])" and info = magento_info and role = "''coupon_field''"
       and l = ?l and be = ?pb and act = no_actions and sc = "Some suggested_scores"
       and coupon_code = "''SAVE10''" and w = "()" and re_search = amount_search]
  have c1: "selectors enhanced_info = selectors magento_info"
    using t unfolding enhanced_info_def magento_info_def by blast
  have c2: "selectors magento_info ''coupon_field'' = Some ?l"
    by (rule magento_info_fields(2))
  have "selectors (enhance_with_ai suggested [''coupon_field''] suggested_scores magento_info)
          ''coupon_field'' = Some ?l"
    using t c2 by blast
  then have c3: "selectors enhanced_info ''coupon_field'' = Some ?l"
    unfolding enhanced_info_def .
  have c4: "fill_coupon_field ?pb no_actions enhanced_info ''SAVE10'' ()
       = fill_coupon_field ?pb no_actions magento_info ''SAVE10'' ()"
    unfolding enhanced_info_eq using t by blast
  have c5: "click_apply_button ?pb no_actions enhanced_info ()
       = click_apply_button ?pb no_actions magento_info ()"
    unfolding enhanced_info_eq using t by blast
  have c6: "\<not> ai_confident magento_info ''discount_amount''"
    by (simp add: ai_confident_def magento_info_fields(3))
  have c7: "extract_discount_amount amount_search ?pb magento_info ()
       = extract_discount_amount amount_search ?pb (magento_info\<lparr>selectors := Map.empty\<rparr>) ()"
    using t c6 by blast
  show ?thesis
    by (intro conjI) (rule c1 c2 c3 c4 c5 c6 c7)+
qed

text \<open>
  C4 as stated fails there: the confidence of the coupon field is above the threshold,
  yet the suggested selector is not in the ladder, and on a page that shows both the
  suggested element and the platform's first one \<open>apply_coupon\<close> fills the platform's.
\<close>

theorem ai_selectors_not_prepended_counterexample:
  "ai_confident enhanced_info ''coupon_field''
   \<and> suggested ''coupon_field'' = [''#promo-input'']
   \<and> platform_ladder enhanced_info ''coupon_field''
       = [''#coupon_code'', ''#discount-code'', ''#discount-coupon-form #coupon_code'']
   \<and> fill_coupon_field (page_browser [''#promo-input'' \<mapsto> ''a'', ''#coupon_code'' \<mapsto> ''b''])
         no_actions enhanced_info ''SAVE10'' () = (BySelector ''#coupon_code'', ())"
  by (simp add: enhanced_confident enhanced_ladder enhanced_fill suggested_def)

end
